theory Spec2Isabelle
  imports Main "HOL-Library.Word"
begin

unbundle bit_operations_syntax

section \<open>Render graph builder (RenderGraphBuilder.h)\<close>

text \<open>
  A shallow embedding of \<^verbatim>\<open>Engine/Source/Runtime/RenderCore/Public/RenderGraphBuilder.h\<close>.
  Every object the header places on \<^verbatim>\<open>FMemStack\<close> lives in an arena of its own type and
  a pointer is the index of the object in that arena, so that \<^verbatim>\<open>new(FMemStack::Get()) T\<close>
  appends to the arena of \<^verbatim>\<open>T\<close> and returns the old length. A nullable pointer is an
  \<open>option\<close>. An index beyond the arena is the address of an object that was allocated
  elsewhere, not on this builder. Calls that stop the program (a failed \<^verbatim>\<open>check\<close>, a
  null dereference) return \<open>Inl\<close> of an error.
\<close>

subsection \<open>Errors and accesses\<close>

datatype rdg_error =
    UseAfterExecute
  | InvalidHandle
  | CapabilityMismatch
  | InvalidComputePass
  | AllocationFailure
  | NullDereference

datatype EResourceTransitionAccess = EReadable | EWritable | ERWBarrier

datatype access = Read | Write | ReadWrite

text \<open>The declared access of one entry of a pass's resource table: the access and whether
  the entry is a render-target binding.\<close>

type_synonym access_mode = "access \<times> bool"

datatype category = TextureCategory | BufferCategory

subsection \<open>Resources\<close>

record FPooledRenderTargetDesc =
  Extent :: "nat \<times> nat"
  Format :: nat
  TargetableFlags :: "32 word"

text \<open>A pooled render target is a reference-counted object; \<open>RTId\<close> is its identity and
  \<open>RTDesc\<close> what \<^verbatim>\<open>GetDesc()\<close> returns.\<close>

record IPooledRenderTarget =
  RTId :: nat
  RTDesc :: FPooledRenderTargetDesc

record FRDGBufferDesc =
  BytesPerElement :: nat
  NumElements :: nat
  Usage :: "32 word"

record FPooledRDGBuffer =
  BufId :: nat
  PooledBufDesc :: FRDGBufferDesc

record FRDGTexture =
  TexName :: string
  TexDesc :: FPooledRenderTargetDesc
  PooledRenderTarget :: "IPooledRenderTarget option"

record FRDGBuffer =
  BufName :: string
  BufDesc :: FRDGBufferDesc

record texture_view_desc =
  DescTexture :: "nat option"

record buffer_view_desc =
  DescBuffer :: "nat option"

type_synonym FRDGTextureSRVDesc = texture_view_desc
type_synonym FRDGTextureUAVDesc = texture_view_desc
type_synonym FRDGBufferSRVDesc = buffer_view_desc
type_synonym FRDGBufferUAVDesc = buffer_view_desc

text \<open>A \<^verbatim>\<open>const FRDGResource*\<close>: the arena and the index in it.\<close>

datatype FRDGResourceRef =
    TextureRef nat
  | BufferRef nat
  | TextureSRVRef nat
  | BufferSRVRef nat
  | TextureUAVRef nat
  | BufferUAVRef nat

subsection \<open>Build switches and surroundings\<close>

text \<open>
  The preprocessor switches and constants the header uses but does not define are
  parameters: \<^verbatim>\<open>DO_CHECK\<close>, \<^verbatim>\<open>RENDER_GRAPH_DRAW_EVENTS\<close> (0, 1 or 2, from
  \<^verbatim>\<open>WITH_PROFILEGPU\<close>), the two texture creation flags, and whether a failed
  \<^verbatim>\<open>ensureMsgf\<close> stops the call (\<open>EnsureHalts\<close>) or reports and lets it continue.
  \<open>GRenderGraphImmediateMode\<close> selects the immediate debugging mode the header's comments
  mention, and \<open>TransitionTable\<close> is the lookup table of the dependency walk.
  What lies behind a texture or buffer pointer that does not point into the arenas of
  this builder is a parameter as well (\<open>TexturesElsewhere\<close>, \<open>BuffersElsewhere\<close>): the
  builder reads the name and the descriptor through such a pointer and never writes
  through it.
\<close>

record build_config =
  DO_CHECK :: bool
  RENDER_GRAPH_DRAW_EVENTS :: nat
  EnsureHalts :: bool
  TexCreate_ShaderResource :: "32 word"
  TexCreate_UAV :: "32 word"
  GRenderGraphImmediateMode :: bool
  TransitionTable :: "access_mode option \<Rightarrow> access_mode \<Rightarrow> category \<Rightarrow> EResourceTransitionAccess option"
  TexturesElsewhere :: "nat \<Rightarrow> FRDGTexture"
  BuffersElsewhere :: "nat \<Rightarrow> FRDGBuffer"

definition RENDER_GRAPH_DEBUGGING :: "build_config \<Rightarrow> bool" where
  "RENDER_GRAPH_DEBUGGING cfg = DO_CHECK cfg"

subsection \<open>Scopes and passes\<close>

type_synonym FRDGEventName = string

definition GetTCHAR :: "build_config \<Rightarrow> FRDGEventName \<Rightarrow> string" where
  "GetTCHAR cfg EventName =
     (if RENDER_GRAPH_DRAW_EVENTS cfg = 2 then EventName
      else if RENDER_GRAPH_DRAW_EVENTS cfg = 1 then EventName
      else ''UnknownRDVEvent'')"

record FRDGEventScope =
  ScopeParent :: "nat option"
  ScopeName :: FRDGEventName

type_synonym ERenderGraphPassFlags = "32 word"

definition PassFlags_None :: ERenderGraphPassFlags where
  "PassFlags_None = 0"

definition PassFlags_Compute :: ERenderGraphPassFlags where
  "PassFlags_Compute = push_bit 0 1"

record table_entry =
  Resource :: FRDGResourceRef
  Access :: access
  RenderTarget :: bool

text \<open>The parameter struct of a pass together with its layout, seen as the resource table
  the layout describes.\<close>

record FShaderParameterStructRef =
  ResourceTable :: "table_entry list"

definition NumRenderTargets :: "FShaderParameterStructRef \<Rightarrow> nat" where
  "NumRenderTargets s = length (filter RenderTarget (ResourceTable s))"

record FRenderGraphPass =
  PassName :: FRDGEventName
  ParentScope :: "nat option"
  ParameterStruct :: FShaderParameterStructRef
  PassFlags :: ERenderGraphPassFlags
  ExecuteLambda :: nat

definition IsCompute :: "FRenderGraphPass \<Rightarrow> bool" where
  "IsCompute p = ((PassFlags p AND PassFlags_Compute) = PassFlags_Compute)"

subsection \<open>The builder and the state around it\<close>

record FDeferredInternalTextureQuery =
  QueryTexture :: "nat option"
  OutTexturePtr :: "nat option"
  bTransitionToRead :: bool

definition kMaxScopeCount :: nat where
  "kMaxScopeCount = 8"

record FRDGBuilder =
  Passes :: "FRenderGraphPass list"
  AllocatedTextures :: "nat \<rightharpoonup> IPooledRenderTarget"
  AllocatedBuffers :: "nat \<rightharpoonup> FPooledRDGBuffer"
  DeferredInternalTextureQueries :: "FDeferredInternalTextureQuery list"
  EventScopes :: "nat list"
  CurrentScope :: "nat option"
  ScopesStack :: "nat option list"
  bHasExecuted :: bool
  Resources :: "FRDGResourceRef list"

text \<open>What the command list has recorded: resource transitions, the render-pass brackets
  and the invocation of a pass's lambda (named by the number the pass carries).\<close>

datatype rhi_command =
    TransitionResource EResourceTransitionAccess FRDGResourceRef
  | BeginRenderPass
  | EndRenderPass
  | InvokeLambda nat

text \<open>
  Modelled from the spec: the physical resource pool, an external collaborator whose code
  is not in the header. Free instances are kept with their descriptors; \<open>NextId\<close> names
  the next instance to construct and \<open>Capacity\<close> is how many more the backing allocator
  can construct before an acquisition fails.
\<close>

record render_target_pool =
  FreeTextures :: "IPooledRenderTarget list"
  FreeBuffers :: "FPooledRDGBuffer list"
  NextId :: nat
  Capacity :: nat

record rdg_state =
  Builder :: FRDGBuilder
  Textures :: "FRDGTexture list"
  Buffers :: "FRDGBuffer list"
  TextureSRVs :: "(string \<times> FRDGTextureSRVDesc) list"
  BufferSRVs :: "(string \<times> FRDGBufferSRVDesc) list"
  TextureUAVs :: "(string \<times> FRDGTextureUAVDesc) list"
  BufferUAVs :: "(string \<times> FRDGBufferUAVDesc) list"
  EventScopeArena :: "FRDGEventScope list"
  ParameterBlocks :: "8 word list list"
  OutSlots :: "nat \<Rightarrow> IPooledRenderTarget option"
  RHICmdList :: "rhi_command list"
  Diagnostics :: "rdg_error list"
  Pool :: render_target_pool
  CheckedOut :: "FRDGResourceRef list"

text \<open>\<^verbatim>\<open>FRDGBuilder::FRDGBuilder\<close>: every slot of the scope stack is null; the member
  initialisers give a null current scope and a cleared executed flag.\<close>

definition new_FRDGBuilder :: FRDGBuilder where
  "new_FRDGBuilder =
     \<lparr>Passes = [], AllocatedTextures = Map.empty, AllocatedBuffers = Map.empty,
      DeferredInternalTextureQueries = [], EventScopes = [], CurrentScope = None,
      ScopesStack = replicate kMaxScopeCount None, bHasExecuted = False, Resources = []\<rparr>"

definition initial_state ::
  "(nat \<Rightarrow> IPooledRenderTarget option) \<Rightarrow> render_target_pool \<Rightarrow> rdg_state" where
  "initial_state slots pool =
     \<lparr>Builder = new_FRDGBuilder, Textures = [], Buffers = [], TextureSRVs = [],
      BufferSRVs = [], TextureUAVs = [], BufferUAVs = [], EventScopeArena = [],
      ParameterBlocks = [], OutSlots = slots, RHICmdList = [], Diagnostics = [],
      Pool = pool, CheckedOut = []\<rparr>"

text \<open>Sequencing of calls that may stop the program.\<close>

definition and_then :: "'e + 'a \<Rightarrow> ('a \<Rightarrow> 'e + 'b) \<Rightarrow> 'e + 'b" where
  "and_then r f = (case r of Inl e \<Rightarrow> Inl e | Inr v \<Rightarrow> f v)"

text \<open>
  \<^verbatim>\<open>check\<close>/\<^verbatim>\<open>checkf\<close> stop the program when the condition fails and are compiled out
  without \<^verbatim>\<open>DO_CHECK\<close>. \<^verbatim>\<open>ensureMsgf\<close> reports a failed condition; it is inert without
  \<^verbatim>\<open>DO_CHECK\<close>, and with it the call either stops (\<open>EnsureHalts\<close>) or goes on with the
  failure appended to \<open>Diagnostics\<close>.
\<close>

definition checkf :: "build_config \<Rightarrow> bool \<Rightarrow> rdg_error \<Rightarrow> rdg_state \<Rightarrow> rdg_error + rdg_state" where
  "checkf cfg cond err st = (if DO_CHECK cfg \<and> \<not> cond then Inl err else Inr st)"

definition ensureMsgf :: "build_config \<Rightarrow> bool \<Rightarrow> rdg_error \<Rightarrow> rdg_state \<Rightarrow> rdg_error + rdg_state" where
  "ensureMsgf cfg cond err st =
     (if DO_CHECK cfg \<and> \<not> cond
      then (if EnsureHalts cfg then Inl err
            else Inr (st\<lparr>Diagnostics := Diagnostics st @ [err]\<rparr>))
      else Inr st)"

text \<open>Dereferencing a pointer the builder keeps itself (the current scope, the texture
  of a queued extraction): a null pointer stops the program; an index outside the arena
  is a pointer this builder never handed out.\<close>

definition deref :: "'a list \<Rightarrow> nat option \<Rightarrow> rdg_error + 'a" where
  "deref arena p =
     (case p of
        None \<Rightarrow> Inl NullDereference
      | Some i \<Rightarrow> if i < length arena then Inr (arena ! i) else Inl InvalidHandle)"

text \<open>Reading through a texture or buffer pointer a caller passes in, as
  \<^verbatim>\<open>Desc.Texture->Name\<close> does: a null pointer stops the program, a pointer into the arena
  gives the object of this builder, and any other pointer gives the object that lies
  there.\<close>

definition pointee :: "'a list \<Rightarrow> (nat \<Rightarrow> 'a) \<Rightarrow> nat \<Rightarrow> 'a" where
  "pointee arena elsewhere i = (if i < length arena then arena ! i else elsewhere i)"

definition read_through :: "'a list \<Rightarrow> (nat \<Rightarrow> 'a) \<Rightarrow> nat option \<Rightarrow> rdg_error + 'a" where
  "read_through arena elsewhere p =
     (case p of
        None \<Rightarrow> Inl NullDereference
      | Some i \<Rightarrow> Inr (pointee arena elsewhere i))"

definition add_Resource :: "build_config \<Rightarrow> FRDGResourceRef \<Rightarrow> rdg_state \<Rightarrow> rdg_state" where
  "add_Resource cfg r st =
     (if RENDER_GRAPH_DEBUGGING cfg
      then st\<lparr>Builder := (Builder st)\<lparr>Resources := Resources (Builder st) @ [r]\<rparr>\<rparr>
      else st)"

definition debug_ensure ::
  "build_config \<Rightarrow> bool \<Rightarrow> rdg_error \<Rightarrow> rdg_state \<Rightarrow> rdg_error + rdg_state" where
  "debug_ensure cfg cond err st =
     (if RENDER_GRAPH_DEBUGGING cfg then ensureMsgf cfg cond err st else Inr st)"

definition debug_checkf ::
  "build_config \<Rightarrow> bool \<Rightarrow> rdg_error \<Rightarrow> rdg_state \<Rightarrow> rdg_error + rdg_state" where
  "debug_checkf cfg cond err st =
     (if RENDER_GRAPH_DEBUGGING cfg then checkf cfg cond err st else Inr st)"

subsection \<open>Declaring resources\<close>

definition RegisterExternalTexture ::
  "build_config \<Rightarrow> IPooledRenderTarget option \<Rightarrow> string \<Rightarrow> rdg_state \<Rightarrow> rdg_error + (nat \<times> rdg_state)" where
  "RegisterExternalTexture cfg ExternalPooledTexture Name st =
     and_then (debug_ensure cfg (ExternalPooledTexture \<noteq> None) InvalidHandle st) (\<lambda>st1.
       case ExternalPooledTexture of
         None \<Rightarrow> Inl NullDereference
       | Some rt \<Rightarrow>
           let OutTexture = length (Textures st1);
               st2 = st1\<lparr>Textures := Textures st1 @
                        [\<lparr>TexName = Name, TexDesc = RTDesc rt, PooledRenderTarget = Some rt\<rparr>]\<rparr>;
               st3 = st2\<lparr>Builder := (Builder st2)
                        \<lparr>AllocatedTextures := (AllocatedTextures (Builder st2))(OutTexture \<mapsto> rt)\<rparr>\<rparr>
           in Inr (OutTexture, add_Resource cfg (TextureRef OutTexture) st3))"

definition CreateTexture ::
  "build_config \<Rightarrow> FPooledRenderTargetDesc \<Rightarrow> string \<Rightarrow> rdg_state \<Rightarrow> rdg_error + (nat \<times> rdg_state)" where
  "CreateTexture cfg Desc DebugName st =
     and_then (debug_ensure cfg (\<not> bHasExecuted (Builder st)) UseAfterExecute st) (\<lambda>st1.
       let Texture = length (Textures st1);
           st2 = st1\<lparr>Textures := Textures st1 @
                    [\<lparr>TexName = DebugName, TexDesc = Desc, PooledRenderTarget = None\<rparr>]\<rparr>
       in Inr (Texture, add_Resource cfg (TextureRef Texture) st2))"

definition CreateBuffer ::
  "build_config \<Rightarrow> FRDGBufferDesc \<Rightarrow> string \<Rightarrow> rdg_state \<Rightarrow> rdg_error + (nat \<times> rdg_state)" where
  "CreateBuffer cfg Desc DebugName st =
     and_then (debug_ensure cfg (\<not> bHasExecuted (Builder st)) UseAfterExecute st) (\<lambda>st1.
       let Buffer = length (Buffers st1);
           st2 = st1\<lparr>Buffers := Buffers st1 @ [\<lparr>BufName = DebugName, BufDesc = Desc\<rparr>]\<rparr>
       in Inr (Buffer, add_Resource cfg (BufferRef Buffer) st2))"

definition CreateSRV_Texture ::
  "build_config \<Rightarrow> FRDGTextureSRVDesc \<Rightarrow> rdg_state \<Rightarrow> rdg_error + (nat \<times> rdg_state)" where
  "CreateSRV_Texture cfg Desc st =
     and_then (checkf cfg (DescTexture Desc \<noteq> None) InvalidHandle st) (\<lambda>st0.
     and_then (read_through (Textures st0) (TexturesElsewhere cfg) (DescTexture Desc)) (\<lambda>Texture.
     and_then (debug_ensure cfg (\<not> bHasExecuted (Builder st0)) UseAfterExecute st0) (\<lambda>st1.
     and_then (debug_ensure cfg
                 (TargetableFlags (TexDesc Texture) AND TexCreate_ShaderResource cfg \<noteq> 0)
                 CapabilityMismatch st1) (\<lambda>st2.
       let SRV = length (TextureSRVs st2);
           st3 = st2\<lparr>TextureSRVs := TextureSRVs st2 @ [(TexName Texture, Desc)]\<rparr>
       in Inr (SRV, add_Resource cfg (TextureSRVRef SRV) st3)))))"

definition CreateSRV_Buffer ::
  "build_config \<Rightarrow> FRDGBufferSRVDesc \<Rightarrow> rdg_state \<Rightarrow> rdg_error + (nat \<times> rdg_state)" where
  "CreateSRV_Buffer cfg Desc st =
     and_then (checkf cfg (DescBuffer Desc \<noteq> None) InvalidHandle st) (\<lambda>st0.
     and_then (read_through (Buffers st0) (BuffersElsewhere cfg) (DescBuffer Desc)) (\<lambda>Buffer.
     and_then (debug_ensure cfg (\<not> bHasExecuted (Builder st0)) UseAfterExecute st0) (\<lambda>st1.
       let SRV = length (BufferSRVs st1);
           st2 = st1\<lparr>BufferSRVs := BufferSRVs st1 @ [(BufName Buffer, Desc)]\<rparr>
       in Inr (SRV, add_Resource cfg (BufferSRVRef SRV) st2))))"

definition CreateUAV_Texture ::
  "build_config \<Rightarrow> FRDGTextureUAVDesc \<Rightarrow> rdg_state \<Rightarrow> rdg_error + (nat \<times> rdg_state)" where
  "CreateUAV_Texture cfg Desc st =
     and_then (checkf cfg (DescTexture Desc \<noteq> None) InvalidHandle st) (\<lambda>st0.
     and_then (read_through (Textures st0) (TexturesElsewhere cfg) (DescTexture Desc)) (\<lambda>Texture.
     and_then (debug_ensure cfg (\<not> bHasExecuted (Builder st0)) UseAfterExecute st0) (\<lambda>st1.
     and_then (debug_ensure cfg
                 (TargetableFlags (TexDesc Texture) AND TexCreate_UAV cfg \<noteq> 0)
                 CapabilityMismatch st1) (\<lambda>st2.
       let UAV = length (TextureUAVs st2);
           st3 = st2\<lparr>TextureUAVs := TextureUAVs st2 @ [(TexName Texture, Desc)]\<rparr>
       in Inr (UAV, add_Resource cfg (TextureUAVRef UAV) st3)))))"

definition CreateUAV_Buffer ::
  "build_config \<Rightarrow> FRDGBufferUAVDesc \<Rightarrow> rdg_state \<Rightarrow> rdg_error + (nat \<times> rdg_state)" where
  "CreateUAV_Buffer cfg Desc st =
     and_then (checkf cfg (DescBuffer Desc \<noteq> None) InvalidHandle st) (\<lambda>st0.
     and_then (read_through (Buffers st0) (BuffersElsewhere cfg) (DescBuffer Desc)) (\<lambda>Buffer.
     and_then (debug_ensure cfg (\<not> bHasExecuted (Builder st0)) UseAfterExecute st0) (\<lambda>st1.
       let UAV = length (BufferUAVs st1);
           st2 = st1\<lparr>BufferUAVs := BufferUAVs st1 @ [(BufName Buffer, Desc)]\<rparr>
       in Inr (UAV, add_Resource cfg (BufferUAVRef UAV) st2))))"

subsection \<open>Parameter structs\<close>

text \<open>\<^verbatim>\<open>FMemory::Memzero(Dest, Count)\<close> writes a zero byte to each of the first \<open>Count\<close>
  bytes of the block at \<open>Dest\<close>.\<close>

fun Memzero :: "8 word list \<Rightarrow> nat \<Rightarrow> 8 word list" where
  "Memzero bs 0 = bs"
| "Memzero [] (Suc n) = []"
| "Memzero (b # bs) (Suc n) = 0 # Memzero bs n"

text \<open>
  \<^verbatim>\<open>AllocParameters<ParameterStructType>()\<close>. The argument is the block as the default
  constructor of \<^verbatim>\<open>ParameterStructType\<close> leaves it, one byte per element, so its length is
  \<^verbatim>\<open>sizeof(ParameterStructType)\<close>. The method is \<^verbatim>\<open>const\<close>: the builder is not touched.
\<close>

definition AllocParameters :: "8 word list \<Rightarrow> rdg_state \<Rightarrow> nat \<times> rdg_state" where
  "AllocParameters constructed st =
     (let OutParameterPtr = length (ParameterBlocks st);
          st1 = st\<lparr>ParameterBlocks := ParameterBlocks st @ [constructed]\<rparr>;
          st2 = st1\<lparr>ParameterBlocks := (ParameterBlocks st1)
                   [OutParameterPtr :=
                      Memzero (ParameterBlocks st1 ! OutParameterPtr) (length constructed)]\<rparr>
      in (OutParameterPtr, st2))"

subsection \<open>Dependency walk, allocation and execution of a pass\<close>

text \<open>
  \<^verbatim>\<open>Execute\<close>, \<^verbatim>\<open>DebugPass\<close>, \<^verbatim>\<open>ValidatePass\<close>, \<^verbatim>\<open>WalkGraphDependencies\<close>,
  \<^verbatim>\<open>ExecutePass\<close>, the \<^verbatim>\<open>AllocateRHI...IfNeeded\<close> and \<^verbatim>\<open>ReleaseRHI...IfPossible\<close> members and
  \<^verbatim>\<open>ProcessDeferredInternalResourceQueries\<close> are declared in the header and defined in a
  source file that is not available. Their definitions below follow the specification.
\<close>

text \<open>
  Modelled from the spec: the logical resource behind a reference of a resource table
  (part of the missing \<^verbatim>\<open>ValidatePass\<close> and \<^verbatim>\<open>WalkGraphDependencies\<close>). A view stands for
  the texture or buffer it was created over; a reference outside the arenas of this
  builder has none.
\<close>

definition underlying :: "rdg_state \<Rightarrow> FRDGResourceRef \<Rightarrow> FRDGResourceRef option" where
  "underlying st r =
     (case r of
        TextureRef i \<Rightarrow> if i < length (Textures st) then Some (TextureRef i) else None
      | BufferRef i \<Rightarrow> if i < length (Buffers st) then Some (BufferRef i) else None
      | TextureSRVRef i \<Rightarrow>
          if i < length (TextureSRVs st)
          then (case DescTexture (snd (TextureSRVs st ! i)) of
                  None \<Rightarrow> None
                | Some t \<Rightarrow> if t < length (Textures st) then Some (TextureRef t) else None)
          else None
      | BufferSRVRef i \<Rightarrow>
          if i < length (BufferSRVs st)
          then (case DescBuffer (snd (BufferSRVs st ! i)) of
                  None \<Rightarrow> None
                | Some b \<Rightarrow> if b < length (Buffers st) then Some (BufferRef b) else None)
          else None
      | TextureUAVRef i \<Rightarrow>
          if i < length (TextureUAVs st)
          then (case DescTexture (snd (TextureUAVs st ! i)) of
                  None \<Rightarrow> None
                | Some t \<Rightarrow> if t < length (Textures st) then Some (TextureRef t) else None)
          else None
      | BufferUAVRef i \<Rightarrow>
          if i < length (BufferUAVs st)
          then (case DescBuffer (snd (BufferUAVs st ! i)) of
                  None \<Rightarrow> None
                | Some b \<Rightarrow> if b < length (Buffers st) then Some (BufferRef b) else None)
          else None)"

text \<open>Modelled from the spec: the resource category that keys the transition table of
  the missing \<^verbatim>\<open>WalkGraphDependencies\<close>.\<close>

fun category_of :: "FRDGResourceRef \<Rightarrow> category" where
  "category_of (BufferRef i) = BufferCategory"
| "category_of (BufferSRVRef i) = BufferCategory"
| "category_of (BufferUAVRef i) = BufferCategory"
| "category_of r = TextureCategory"

text \<open>Modelled from the spec: the accesses a pass declares, as the missing
  \<^verbatim>\<open>WalkGraphDependencies\<close> reads them: (logical resource, access mode) in the order of
  the resource table.\<close>

definition pass_accesses ::
  "rdg_state \<Rightarrow> FRenderGraphPass \<Rightarrow> (FRDGResourceRef \<times> access_mode) list" where
  "pass_accesses st p =
     List.map_filter
       (\<lambda>e. map_option (\<lambda>r. (r, (Access e, RenderTarget e))) (underlying st (Resource e)))
       (ResourceTable (ParameterStruct p))"

text \<open>
  Modelled from the spec: what the missing \<^verbatim>\<open>WalkGraphDependencies\<close> (the Dependency and
  Lifetime Analyzer) produces for one pass: the resources to acquire before it (their
  first use), the (resource, transition) pairs to apply before it, in order, and the
  resources to release after it (their last use).
\<close>

record pass_plan =
  Acquires :: "FRDGResourceRef list"
  Transitions :: "(FRDGResourceRef \<times> EResourceTransitionAccess) list"
  Releases :: "FRDGResourceRef list"

text \<open>
  Modelled from the spec: the transitions the missing \<^verbatim>\<open>WalkGraphDependencies\<close> computes
  for one pass. The scan keeps, for every resource, the access mode of its previous
  access (\<open>None\<close> while it has had none) and looks each consecutive pair up in the table
  under the resource's category.
\<close>

fun pass_transitions ::
  "(access_mode option \<Rightarrow> access_mode \<Rightarrow> category \<Rightarrow> EResourceTransitionAccess option) \<Rightarrow>
   (FRDGResourceRef \<Rightarrow> access_mode option) \<Rightarrow> (FRDGResourceRef \<times> access_mode) list \<Rightarrow>
   (FRDGResourceRef \<times> EResourceTransitionAccess) list \<times> (FRDGResourceRef \<Rightarrow> access_mode option)" where
  "pass_transitions tbl prev [] = ([], prev)"
| "pass_transitions tbl prev ((r, a) # es) =
     (let (ts, prev') = pass_transitions tbl (prev(r := Some a)) es
      in (case tbl (prev r) a (category_of r) of
            None \<Rightarrow> (ts, prev')
          | Some t \<Rightarrow> ((r, t) # ts, prev')))"

text \<open>
  Modelled from the spec: the single linear scan over the pass sequence of the missing
  \<^verbatim>\<open>WalkGraphDependencies\<close>. A resource is acquired before the first pass that references
  it and released after the last one; a texture in \<open>keep\<close> is not released by a pass.
\<close>

fun walk ::
  "(access_mode option \<Rightarrow> access_mode \<Rightarrow> category \<Rightarrow> EResourceTransitionAccess option) \<Rightarrow>
   FRDGResourceRef list \<Rightarrow> (FRDGResourceRef \<Rightarrow> access_mode option) \<Rightarrow>
   (FRDGResourceRef \<times> access_mode) list list \<Rightarrow> pass_plan list" where
  "walk tbl keep prev [] = []"
| "walk tbl keep prev (es # rest) =
     (let (ts, prev') = pass_transitions tbl prev es
      in \<lparr>Acquires = filter (\<lambda>r. prev r = None) (remdups (map fst es)),
          Transitions = ts,
          Releases = filter (\<lambda>r. r \<notin> set (map fst (concat rest)) \<and> r \<notin> set keep)
                       (remdups (map fst es))\<rparr>
         # walk tbl keep prev' rest)"

text \<open>Modelled from the spec: the textures with a queued extraction; the missing
  \<^verbatim>\<open>WalkGraphDependencies\<close> keeps them until the extraction is resolved.\<close>

definition queried_textures :: "rdg_state \<Rightarrow> FRDGResourceRef list" where
  "queried_textures st =
     List.map_filter (\<lambda>q. map_option TextureRef (QueryTexture q))
       (DeferredInternalTextureQueries (Builder st))"

text \<open>Modelled from the spec: the missing \<^verbatim>\<open>WalkGraphDependencies\<close>, the walk over the
  passes of the builder, starting with no resource accessed yet.\<close>

definition WalkGraphDependencies :: "build_config \<Rightarrow> rdg_state \<Rightarrow> pass_plan list" where
  "WalkGraphDependencies cfg st =
     walk (TransitionTable cfg) (queried_textures st) (\<lambda>r. None)
       (map (pass_accesses st) (Passes (Builder st)))"

text \<open>
  Modelled from the spec: \<open>acquire\<close> of the missing pool (Physical Resource Allocator),
  for textures. It hands out a free instance whose descriptor matches, otherwise
  constructs a new one, and fails when the backing allocator cannot construct any more.
\<close>

definition acquire_texture ::
  "FPooledRenderTargetDesc \<Rightarrow> render_target_pool \<Rightarrow> (IPooledRenderTarget \<times> render_target_pool) option" where
  "acquire_texture desc pool =
     (case find (\<lambda>rt. RTDesc rt = desc) (FreeTextures pool) of
        Some rt \<Rightarrow> Some (rt, pool\<lparr>FreeTextures := remove1 rt (FreeTextures pool)\<rparr>)
      | None \<Rightarrow>
          if Capacity pool = 0 then None
          else Some (\<lparr>RTId = NextId pool, RTDesc = desc\<rparr>,
                     pool\<lparr>NextId := NextId pool + 1, Capacity := Capacity pool - 1\<rparr>))"

text \<open>Modelled from the spec: \<open>acquire\<close> of the missing pool, for buffers.\<close>

definition acquire_buffer ::
  "FRDGBufferDesc \<Rightarrow> render_target_pool \<Rightarrow> (FPooledRDGBuffer \<times> render_target_pool) option" where
  "acquire_buffer desc pool =
     (case find (\<lambda>b. PooledBufDesc b = desc) (FreeBuffers pool) of
        Some b \<Rightarrow> Some (b, pool\<lparr>FreeBuffers := remove1 b (FreeBuffers pool)\<rparr>)
      | None \<Rightarrow>
          if Capacity pool = 0 then None
          else Some (\<lparr>BufId = NextId pool, PooledBufDesc = desc\<rparr>,
                     pool\<lparr>NextId := NextId pool + 1, Capacity := Capacity pool - 1\<rparr>))"

text \<open>
  Modelled from the spec: the missing \<^verbatim>\<open>AllocateRHITextureIfNeeded\<close>, binding a texture to a
  physical resource just before its first use. A texture that already has its physical
  resource (an external one) bypasses the pool. A texture bound here is recorded as
  checked out.
\<close>

definition AllocateRHITextureIfNeeded :: "nat \<Rightarrow> rdg_state \<Rightarrow> rdg_error + rdg_state" where
  "AllocateRHITextureIfNeeded i st =
     (if i < length (Textures st)
      then (case PooledRenderTarget (Textures st ! i) of
              Some rt \<Rightarrow> Inr st
            | None \<Rightarrow>
                (case acquire_texture (TexDesc (Textures st ! i)) (Pool st) of
                   None \<Rightarrow> Inl AllocationFailure
                 | Some (rt, pool') \<Rightarrow>
                     Inr (st\<lparr>Pool := pool',
                             Textures := (Textures st)
                               [i := (Textures st ! i)\<lparr>PooledRenderTarget := Some rt\<rparr>],
                             Builder := (Builder st)
                               \<lparr>AllocatedTextures := (AllocatedTextures (Builder st))(i \<mapsto> rt)\<rparr>,
                             CheckedOut := TextureRef i # CheckedOut st\<rparr>)))
      else Inl InvalidHandle)"

text \<open>Modelled from the spec: the missing \<^verbatim>\<open>AllocateRHIBufferIfNeeded\<close>, the same for a
  buffer; its binding is the builder's entry in \<open>AllocatedBuffers\<close>.\<close>

definition AllocateRHIBufferIfNeeded :: "nat \<Rightarrow> rdg_state \<Rightarrow> rdg_error + rdg_state" where
  "AllocateRHIBufferIfNeeded i st =
     (if i < length (Buffers st)
      then (case AllocatedBuffers (Builder st) i of
              Some b \<Rightarrow> Inr st
            | None \<Rightarrow>
                (case acquire_buffer (BufDesc (Buffers st ! i)) (Pool st) of
                   None \<Rightarrow> Inl AllocationFailure
                 | Some (b, pool') \<Rightarrow>
                     Inr (st\<lparr>Pool := pool',
                             Builder := (Builder st)
                               \<lparr>AllocatedBuffers := (AllocatedBuffers (Builder st))(i \<mapsto> b)\<rparr>,
                             CheckedOut := BufferRef i # CheckedOut st\<rparr>)))
      else Inl InvalidHandle)"

text \<open>Modelled from the spec: the acquisitions of the missing \<^verbatim>\<open>ExecutePass\<close>, one
  resource and a list of them; the first failure ends them. A view is never allocated
  on its own.\<close>

fun acquire_resource :: "FRDGResourceRef \<Rightarrow> rdg_state \<Rightarrow> rdg_error + rdg_state" where
  "acquire_resource (TextureRef i) st = AllocateRHITextureIfNeeded i st"
| "acquire_resource (BufferRef i) st = AllocateRHIBufferIfNeeded i st"
| "acquire_resource r st = Inl InvalidHandle"

fun acquire_all :: "FRDGResourceRef list \<Rightarrow> rdg_state \<Rightarrow> rdg_error + rdg_state" where
  "acquire_all [] st = Inr st"
| "acquire_all (r # rs) st = and_then (acquire_resource r st) (acquire_all rs)"

text \<open>
  Modelled from the spec: the missing \<^verbatim>\<open>ReleaseRHITextureIfPossible\<close>, returning the
  physical resource of a texture to the pool after the last use. Only a resource checked
  out from the pool is returned; for an external texture the release is a no-op and the
  builder keeps its reference.
\<close>

definition ReleaseRHITextureIfPossible :: "nat \<Rightarrow> rdg_state \<Rightarrow> rdg_state" where
  "ReleaseRHITextureIfPossible i st =
     (if TextureRef i \<in> set (CheckedOut st) \<and> i < length (Textures st)
      then (case AllocatedTextures (Builder st) i of
              None \<Rightarrow> st
            | Some rt \<Rightarrow>
                st\<lparr>Pool := (Pool st)\<lparr>FreeTextures := rt # FreeTextures (Pool st)\<rparr>,
                   Textures := (Textures st)
                     [i := (Textures st ! i)\<lparr>PooledRenderTarget := None\<rparr>],
                   Builder := (Builder st)
                     \<lparr>AllocatedTextures := (AllocatedTextures (Builder st))(i := None)\<rparr>,
                   CheckedOut := removeAll (TextureRef i) (CheckedOut st)\<rparr>)
      else st)"

text \<open>Modelled from the spec: the missing \<^verbatim>\<open>ReleaseRHIBufferIfPossible\<close>, the same for a
  buffer.\<close>

definition ReleaseRHIBufferIfPossible :: "nat \<Rightarrow> rdg_state \<Rightarrow> rdg_state" where
  "ReleaseRHIBufferIfPossible i st =
     (if BufferRef i \<in> set (CheckedOut st)
      then (case AllocatedBuffers (Builder st) i of
              None \<Rightarrow> st
            | Some b \<Rightarrow>
                st\<lparr>Pool := (Pool st)\<lparr>FreeBuffers := b # FreeBuffers (Pool st)\<rparr>,
                   Builder := (Builder st)
                     \<lparr>AllocatedBuffers := (AllocatedBuffers (Builder st))(i := None)\<rparr>,
                   CheckedOut := removeAll (BufferRef i) (CheckedOut st)\<rparr>)
      else st)"

text \<open>Modelled from the spec: the missing \<^verbatim>\<open>ReleaseUnecessaryResources\<close>, releasing the
  resources the plan lists.\<close>

fun release_resource :: "FRDGResourceRef \<Rightarrow> rdg_state \<Rightarrow> rdg_state" where
  "release_resource (TextureRef i) st = ReleaseRHITextureIfPossible i st"
| "release_resource (BufferRef i) st = ReleaseRHIBufferIfPossible i st"
| "release_resource r st = st"

definition ReleaseUnecessaryResources :: "FRDGResourceRef list \<Rightarrow> rdg_state \<Rightarrow> rdg_state" where
  "ReleaseUnecessaryResources rs st = fold release_resource rs st"

text \<open>Modelled from the spec: recording on the command list (the class of
  \<^verbatim>\<open>RHICmdList\<close> is missing) appends to what it has recorded.\<close>

definition record_commands :: "rhi_command list \<Rightarrow> rdg_state \<Rightarrow> rdg_state" where
  "record_commands cs st = st\<lparr>RHICmdList := RHICmdList st @ cs\<rparr>"

text \<open>Modelled from the spec: the missing \<^verbatim>\<open>ValidatePass\<close>: every entry of the resource
  table names a resource created on this builder.\<close>

definition ValidatePass :: "rdg_state \<Rightarrow> FRenderGraphPass \<Rightarrow> bool" where
  "ValidatePass st p =
     list_all (\<lambda>e. underlying st (Resource e) \<noteq> None) (ResourceTable (ParameterStruct p))"

text \<open>
  Modelled from the spec: the missing \<^verbatim>\<open>ExecutePass\<close> (Execution Engine), the steps for
  one pass: (1) acquire and transition its resources as the walk planned, (2) open a
  render-target binding scope if the pass is a graphics pass that declares render
  targets, (3) invoke its callback, (4) close the scope, (5) release the resources whose
  last use it was. A resource-table entry that names no resource of this builder stops
  the call with \<open>InvalidHandle\<close>.
\<close>

definition ExecutePass ::
  "pass_plan \<Rightarrow> FRenderGraphPass \<Rightarrow> rdg_state \<Rightarrow> rdg_error + rdg_state" where
  "ExecutePass plan p st =
     (if \<not> ValidatePass st p then Inl InvalidHandle
      else and_then (acquire_all (Acquires plan) st) (\<lambda>st1.
        let bHasRenderTargets = (\<not> IsCompute p \<and> NumRenderTargets (ParameterStruct p) \<noteq> 0);
            st2 = record_commands (map (\<lambda>(r, t). TransitionResource t r) (Transitions plan)) st1;
            st3 = record_commands
                    ((if bHasRenderTargets then [BeginRenderPass] else [])
                     @ [InvokeLambda (ExecuteLambda p)]
                     @ (if bHasRenderTargets then [EndRenderPass] else [])) st2
        in Inr (ReleaseUnecessaryResources (Releases plan) st3)))"

text \<open>Modelled from the spec: whether passes execute as they are added. The header calls
  the missing \<^verbatim>\<open>DebugPass\<close> only under \<^verbatim>\<open>DO_CHECK\<close>, so the mode exists only there.\<close>

definition ImmediateMode :: "build_config \<Rightarrow> bool" where
  "ImmediateMode cfg = (DO_CHECK cfg \<and> GRenderGraphImmediateMode cfg)"

text \<open>
  Modelled from the spec: the missing \<^verbatim>\<open>DebugPass\<close> (Pass Registry), called with a pass
  that has just been appended. Every entry of its resource table must name a resource created on
  this builder (\<open>InvalidHandle\<close> otherwise). In the immediate mode the pass is executed at
  once, with the acquisitions and transitions the walk gives it; nothing is released
  then, since a later pass may still use the resource.
\<close>

definition DebugPass ::
  "build_config \<Rightarrow> FRenderGraphPass \<Rightarrow> rdg_state \<Rightarrow> rdg_error + rdg_state" where
  "DebugPass cfg p st =
     (if \<not> ValidatePass st p then Inl InvalidHandle
      else if GRenderGraphImmediateMode cfg
      then ExecutePass ((last (WalkGraphDependencies cfg st))\<lparr>Releases := []\<rparr>) p st
      else Inr st)"

subsection \<open>Adding passes and queueing extractions\<close>

text \<open>The constructors of \<^verbatim>\<open>FRenderGraphPass\<close> and \<^verbatim>\<open>TLambdaRenderPass\<close>.\<close>

definition new_TLambdaRenderPass ::
  "build_config \<Rightarrow> FRDGEventName \<Rightarrow> nat option \<Rightarrow> FShaderParameterStructRef \<Rightarrow>
   ERenderGraphPassFlags \<Rightarrow> nat \<Rightarrow> rdg_state \<Rightarrow> rdg_error + (FRenderGraphPass \<times> rdg_state)" where
  "new_TLambdaRenderPass cfg InName InParentScope InParameterStruct InPassFlags InExecuteLambda st =
     (let p = \<lparr>PassName = InName, ParentScope = InParentScope,
               ParameterStruct = InParameterStruct, PassFlags = InPassFlags,
               ExecuteLambda = InExecuteLambda\<rparr>
      in and_then
           (if IsCompute p
            then ensureMsgf cfg (NumRenderTargets (ParameterStruct p) = 0) InvalidComputePass st
            else Inr st)
           (\<lambda>st1. Inr (p, st1)))"

definition AddPass ::
  "build_config \<Rightarrow> FRDGEventName \<Rightarrow> FShaderParameterStructRef \<Rightarrow> ERenderGraphPassFlags \<Rightarrow>
   nat \<Rightarrow> rdg_state \<Rightarrow> rdg_error + rdg_state" where
  "AddPass cfg Name ParameterStruct' Flags ExecuteLambda' st =
     and_then (debug_checkf cfg (\<not> bHasExecuted (Builder st)) UseAfterExecute st) (\<lambda>st0.
     and_then (new_TLambdaRenderPass cfg Name (CurrentScope (Builder st0)) ParameterStruct'
                 Flags ExecuteLambda' st0) (\<lambda>(NewPass, st1).
       let st2 = st1\<lparr>Builder := (Builder st1)\<lparr>Passes := Passes (Builder st1) @ [NewPass]\<rparr>\<rparr>
       in if DO_CHECK cfg then DebugPass cfg NewPass st2 else Inr st2))"

definition QueueTextureExtraction ::
  "build_config \<Rightarrow> nat option \<Rightarrow> nat option \<Rightarrow> bool \<Rightarrow> rdg_state \<Rightarrow> rdg_error + rdg_state" where
  "QueueTextureExtraction cfg Texture OutTexturePtr' bTransitionToRead' st =
     and_then (checkf cfg (Texture \<noteq> None) InvalidHandle st) (\<lambda>st0.
     and_then (checkf cfg (OutTexturePtr' \<noteq> None) InvalidHandle st0) (\<lambda>st1.
     and_then (debug_checkf cfg (\<not> bHasExecuted (Builder st1)) UseAfterExecute st1) (\<lambda>st2.
       let Query = \<lparr>QueryTexture = Texture, OutTexturePtr = OutTexturePtr',
                    bTransitionToRead = bTransitionToRead'\<rparr>
       in Inr (st2\<lparr>Builder := (Builder st2)
                 \<lparr>DeferredInternalTextureQueries :=
                    DeferredInternalTextureQueries (Builder st2) @ [Query]\<rparr>\<rparr>))))"

subsection \<open>Event scopes\<close>

text \<open>The constructor and the destructor of \<^verbatim>\<open>FStackRDGEventScopeRef\<close>; the class exists
  only when \<^verbatim>\<open>RENDER_GRAPH_DRAW_EVENTS\<close> is not 0.\<close>

definition new_FStackRDGEventScopeRef ::
  "build_config \<Rightarrow> FRDGEventName \<Rightarrow> rdg_state \<Rightarrow> rdg_error + rdg_state" where
  "new_FStackRDGEventScopeRef cfg ScopeName' st =
     and_then (checkf cfg (\<not> bHasExecuted (Builder st)) UseAfterExecute st) (\<lambda>st0.
       let NewScope = length (EventScopeArena st0);
           st1 = st0\<lparr>EventScopeArena := EventScopeArena st0 @
                    [\<lparr>ScopeParent = CurrentScope (Builder st0), ScopeName = ScopeName'\<rparr>]\<rparr>;
           st2 = (if RENDER_GRAPH_DRAW_EVENTS cfg = 2
                  then st1\<lparr>Builder := (Builder st1)
                           \<lparr>EventScopes := EventScopes (Builder st1) @ [NewScope]\<rparr>\<rparr>
                  else st1)
       in Inr (st2\<lparr>Builder := (Builder st2)\<lparr>CurrentScope := Some NewScope\<rparr>\<rparr>))"

definition delete_FStackRDGEventScopeRef ::
  "build_config \<Rightarrow> rdg_state \<Rightarrow> rdg_error + rdg_state" where
  "delete_FStackRDGEventScopeRef cfg st =
     and_then (checkf cfg (CurrentScope (Builder st) \<noteq> None) InvalidHandle st) (\<lambda>st0.
     and_then (deref (EventScopeArena st0) (CurrentScope (Builder st0))) (\<lambda>scope.
       Inr (st0\<lparr>Builder := (Builder st0)\<lparr>CurrentScope := ScopeParent scope\<rparr>\<rparr>)))"

subsection \<open>Execution\<close>

text \<open>Modelled from the spec: the loop of the missing \<^verbatim>\<open>Execute\<close> over the passes, each
  with its plan, in order; the first failure ends it.\<close>

fun ExecutePasses ::
  "(pass_plan \<times> FRenderGraphPass) list \<Rightarrow> rdg_state \<Rightarrow> rdg_error + rdg_state" where
  "ExecutePasses [] st = Inr st"
| "ExecutePasses ((plan, p) # rest) st = and_then (ExecutePass plan p st) (ExecutePasses rest)"

text \<open>
  Modelled from the spec: the missing \<^verbatim>\<open>ProcessDeferredInternalResourceQueries\<close>,
  resolving the queued extractions in the order they were queued. Each copies the texture's physical-resource reference into the caller's slot,
  after a transition to readable when the request asks for one.
\<close>

fun ProcessDeferredInternalResourceQueries ::
  "FDeferredInternalTextureQuery list \<Rightarrow> rdg_state \<Rightarrow> rdg_error + rdg_state" where
  "ProcessDeferredInternalResourceQueries [] st = Inr st"
| "ProcessDeferredInternalResourceQueries (q # qs) st =
     and_then (deref (Textures st) (QueryTexture q)) (\<lambda>Texture.
       case OutTexturePtr q of
         None \<Rightarrow> Inl NullDereference
       | Some slot \<Rightarrow>
           let st1 = (if bTransitionToRead q
                      then record_commands
                             [TransitionResource EReadable (TextureRef (the (QueryTexture q)))] st
                      else st);
               st2 = st1\<lparr>OutSlots := (OutSlots st1)(slot := PooledRenderTarget Texture)\<rparr>
           in ProcessDeferredInternalResourceQueries qs st2)"

text \<open>Modelled from the spec: the first part of the missing \<^verbatim>\<open>Execute\<close>. Unless the passes
  were already executed as they were added (immediate mode), the dependency walk runs
  and the passes execute in the order they were declared.\<close>

definition ExecuteDeclaredPasses :: "build_config \<Rightarrow> rdg_state \<Rightarrow> rdg_error + rdg_state" where
  "ExecuteDeclaredPasses cfg st =
     (if ImmediateMode cfg then Inr st
      else ExecutePasses (zip (WalkGraphDependencies cfg st) (Passes (Builder st))) st)"

text \<open>
  Modelled from the spec: the missing \<^verbatim>\<open>Execute\<close> (Execution Engine). It may be entered
  once. After the passes, the queued extractions are resolved and the physical resources
  still checked out are released; the executed flag, which exists under
  \<^verbatim>\<open>RENDER_GRAPH_DEBUGGING\<close>, is set.
\<close>

definition Execute :: "build_config \<Rightarrow> rdg_state \<Rightarrow> rdg_error + rdg_state" where
  "Execute cfg st =
     and_then (debug_checkf cfg (\<not> bHasExecuted (Builder st)) UseAfterExecute st) (\<lambda>st0.
     and_then (ExecuteDeclaredPasses cfg st0) (\<lambda>st1.
     and_then (ProcessDeferredInternalResourceQueries
                 (DeferredInternalTextureQueries (Builder st1)) st1) (\<lambda>st2.
       let st3 = ReleaseUnecessaryResources (CheckedOut st2) st2
       in Inr (if RENDER_GRAPH_DEBUGGING cfg
               then st3\<lparr>Builder := (Builder st3)\<lparr>bHasExecuted := True\<rparr>\<rparr>
               else st3))))"

subsection \<open>Programs over a builder\<close>

text \<open>The calls a client can make on a builder, and running a sequence of them; the
  first call that stops the program ends the run. \<^verbatim>\<open>RDG_EVENT_SCOPE\<close> expands to nothing
  when \<^verbatim>\<open>RENDER_GRAPH_DRAW_EVENTS\<close> is 0; \<open>EnterEventScope\<close> is the declaration of the scope
  object and \<open>LeaveEventScope\<close> the end of the block that holds it.\<close>

datatype rdg_call =
    CallRegisterExternalTexture "IPooledRenderTarget option" string
  | CallCreateTexture FPooledRenderTargetDesc string
  | CallCreateBuffer FRDGBufferDesc string
  | CallCreateSRV_Texture FRDGTextureSRVDesc
  | CallCreateSRV_Buffer FRDGBufferSRVDesc
  | CallCreateUAV_Texture FRDGTextureUAVDesc
  | CallCreateUAV_Buffer FRDGBufferUAVDesc
  | CallAllocParameters "8 word list"
  | CallAddPass FRDGEventName FShaderParameterStructRef ERenderGraphPassFlags nat
  | CallQueueTextureExtraction "nat option" "nat option" bool
  | EnterEventScope FRDGEventName
  | LeaveEventScope
  | CallExecute

definition dropping_handle :: "rdg_error + ('h \<times> rdg_state) \<Rightarrow> rdg_error + rdg_state" where
  "dropping_handle r = and_then r (\<lambda>(h, st). Inr st)"

fun do_call :: "build_config \<Rightarrow> rdg_call \<Rightarrow> rdg_state \<Rightarrow> rdg_error + rdg_state" where
  "do_call cfg (CallRegisterExternalTexture rt n) st =
     dropping_handle (RegisterExternalTexture cfg rt n st)"
| "do_call cfg (CallCreateTexture d n) st = dropping_handle (CreateTexture cfg d n st)"
| "do_call cfg (CallCreateBuffer d n) st = dropping_handle (CreateBuffer cfg d n st)"
| "do_call cfg (CallCreateSRV_Texture d) st = dropping_handle (CreateSRV_Texture cfg d st)"
| "do_call cfg (CallCreateSRV_Buffer d) st = dropping_handle (CreateSRV_Buffer cfg d st)"
| "do_call cfg (CallCreateUAV_Texture d) st = dropping_handle (CreateUAV_Texture cfg d st)"
| "do_call cfg (CallCreateUAV_Buffer d) st = dropping_handle (CreateUAV_Buffer cfg d st)"
| "do_call cfg (CallAllocParameters c) st = Inr (snd (AllocParameters c st))"
| "do_call cfg (CallAddPass n ps f l) st = AddPass cfg n ps f l st"
| "do_call cfg (CallQueueTextureExtraction t out b) st = QueueTextureExtraction cfg t out b st"
| "do_call cfg (EnterEventScope n) st =
     (if RENDER_GRAPH_DRAW_EVENTS cfg = 0 then Inr st else new_FStackRDGEventScopeRef cfg n st)"
| "do_call cfg LeaveEventScope st =
     (if RENDER_GRAPH_DRAW_EVENTS cfg = 0 then Inr st else delete_FStackRDGEventScopeRef cfg st)"
| "do_call cfg CallExecute st = Execute cfg st"

fun run_calls :: "build_config \<Rightarrow> rdg_call list \<Rightarrow> rdg_state \<Rightarrow> rdg_error + rdg_state" where
  "run_calls cfg [] st = Inr st"
| "run_calls cfg (c # cs) st = and_then (do_call cfg c st) (run_calls cfg cs)"

subsection \<open>Notions used by the properties\<close>

text \<open>The lambdas a command list has invoked, in order.\<close>

fun invoked :: "rhi_command list \<Rightarrow> nat list" where
  "invoked [] = []"
| "invoked (InvokeLambda n # cs) = n # invoked cs"
| "invoked (c # cs) = invoked cs"




text \<open>The last request of a queue that names a given output slot.\<close>

fun last_request ::
  "FDeferredInternalTextureQuery list \<Rightarrow> nat \<Rightarrow> FDeferredInternalTextureQuery option" where
  "last_request [] slot = None"
| "last_request (q # qs) slot =
     (case last_request qs slot of
        Some q' \<Rightarrow> Some q'
      | None \<Rightarrow> if OutTexturePtr q = Some slot then Some q else None)"

text \<open>Sequences of calls in which every scope that is entered is left again, properly
  nested, as the blocks of a C++ function nest.\<close>

fun is_scope_call :: "rdg_call \<Rightarrow> bool" where
  "is_scope_call (EnterEventScope n) = True"
| "is_scope_call LeaveEventScope = True"
| "is_scope_call c = False"

inductive balanced :: "rdg_call list \<Rightarrow> bool" where
  balanced_Nil: "balanced []"
| balanced_call: "\<not> is_scope_call c \<Longrightarrow> balanced [c]"
| balanced_scope: "balanced body \<Longrightarrow> balanced (EnterEventScope n # body @ [LeaveEventScope])"
| balanced_append: "balanced cs \<Longrightarrow> balanced ds \<Longrightarrow> balanced (cs @ ds)"

code_pred balanced .

text \<open>Every texture recorded as checked out is a texture of the builder.\<close>

definition checked_out_in_arena :: "rdg_state \<Rightarrow> bool" where
  "checked_out_in_arena st =
     list_all (\<lambda>r. case r of TextureRef i \<Rightarrow> i < length (Textures st) | _ \<Rightarrow> True)
       (CheckedOut st)"


text \<open>Two states that differ at most in what allocation and command recording touch:
  the pool, the bindings of textures and buffers, the checked-out list and the command
  list.\<close>

definition only_allocation_changed :: "rdg_state \<Rightarrow> rdg_state \<Rightarrow> bool" where
  "only_allocation_changed st st' =
     (Passes (Builder st') = Passes (Builder st)
      \<and> DeferredInternalTextureQueries (Builder st') = DeferredInternalTextureQueries (Builder st)
      \<and> EventScopes (Builder st') = EventScopes (Builder st)
      \<and> CurrentScope (Builder st') = CurrentScope (Builder st)
      \<and> ScopesStack (Builder st') = ScopesStack (Builder st)
      \<and> bHasExecuted (Builder st') = bHasExecuted (Builder st)
      \<and> Resources (Builder st') = Resources (Builder st)
      \<and> length (Textures st') = length (Textures st)
      \<and> Buffers st' = Buffers st
      \<and> TextureSRVs st' = TextureSRVs st
      \<and> BufferSRVs st' = BufferSRVs st
      \<and> TextureUAVs st' = TextureUAVs st
      \<and> BufferUAVs st' = BufferUAVs st
      \<and> EventScopeArena st' = EventScopeArena st
      \<and> ParameterBlocks st' = ParameterBlocks st
      \<and> OutSlots st' = OutSlots st
      \<and> Diagnostics st' = Diagnostics st)"

text \<open>Texture \<open>T\<close> is bound to the physical resource \<open>P\<close>, the builder holds a reference
  to \<open>P\<close> for it, and \<open>P\<close> was not checked out from the pool.\<close>

definition external_binding :: "rdg_state \<Rightarrow> nat \<Rightarrow> IPooledRenderTarget \<Rightarrow> bool" where
  "external_binding st T P =
     (T < length (Textures st)
      \<and> PooledRenderTarget (Textures st ! T) = Some P
      \<and> AllocatedTextures (Builder st) T = Some P
      \<and> TextureRef T \<notin> set (CheckedOut st))"

text \<open>Abbreviations for the steps of \<^verbatim>\<open>Execute\<close> and \<^verbatim>\<open>AddPass\<close>: setting the executed
  flag, the pass object \<^verbatim>\<open>AddPass\<close> constructs, a reported diagnostic and the appended
  pass.\<close>

definition mark_executed :: "build_config \<Rightarrow> rdg_state \<Rightarrow> rdg_state" where
  "mark_executed cfg st =
     (if RENDER_GRAPH_DEBUGGING cfg then st\<lparr>Builder := (Builder st)\<lparr>bHasExecuted := True\<rparr>\<rparr> else st)"

definition new_pass ::
  "FRDGEventName \<Rightarrow> nat option \<Rightarrow> FShaderParameterStructRef \<Rightarrow> ERenderGraphPassFlags \<Rightarrow> nat \<Rightarrow>
   FRenderGraphPass" where
  "new_pass n scope ps f l =
     \<lparr>PassName = n, ParentScope = scope, ParameterStruct = ps, PassFlags = f, ExecuteLambda = l\<rparr>"

definition reported :: "rdg_error \<Rightarrow> rdg_state \<Rightarrow> rdg_state" where
  "reported e st = st\<lparr>Diagnostics := Diagnostics st @ [e]\<rparr>"

definition appended_pass :: "FRenderGraphPass \<Rightarrow> rdg_state \<Rightarrow> rdg_state" where
  "appended_pass p st = st\<lparr>Builder := (Builder st)\<lparr>Passes := Passes (Builder st) @ [p]\<rparr>\<rparr>"

text \<open>Concrete builds and inputs for the examples.\<close>

definition example_table ::
  "access_mode option \<Rightarrow> access_mode \<Rightarrow> category \<Rightarrow> EResourceTransitionAccess option" where
  "example_table p a c =
     (if map_option fst p = Some (fst a) then None
      else Some (if fst a = Read then EReadable else EWritable))"

definition example_desc :: FPooledRenderTargetDesc where
  "example_desc = \<lparr>Extent = (4, 4), Format = 1, TargetableFlags = 8\<rparr>"

definition example_buffer_desc :: FRDGBufferDesc where
  "example_buffer_desc = \<lparr>BytesPerElement = 4, NumElements = 16, Usage = 0\<rparr>"

definition development_build :: build_config where
  "development_build =
     \<lparr>DO_CHECK = True, RENDER_GRAPH_DRAW_EVENTS = 2, EnsureHalts = False,
      TexCreate_ShaderResource = 8, TexCreate_UAV = 16, GRenderGraphImmediateMode = False,
      TransitionTable = example_table,
      TexturesElsewhere = (\<lambda>a. \<lparr>TexName = ''Elsewhere'', TexDesc = example_desc,
                                  PooledRenderTarget = None\<rparr>),
      BuffersElsewhere = (\<lambda>a. \<lparr>BufName = ''Elsewhere'', BufDesc = example_buffer_desc\<rparr>)\<rparr>"

definition halting_build :: build_config where
  "halting_build = development_build\<lparr>EnsureHalts := True\<rparr>"

definition immediate_build :: build_config where
  "immediate_build = development_build\<lparr>GRenderGraphImmediateMode := True\<rparr>"

definition example_pool :: render_target_pool where
  "example_pool = \<lparr>FreeTextures = [], FreeBuffers = [], NextId = 100, Capacity = 4\<rparr>"

definition example_target :: IPooledRenderTarget where
  "example_target = \<lparr>RTId = 7, RTDesc = example_desc\<rparr>"

definition example_start :: rdg_state where
  "example_start = initial_state (\<lambda>slot. None) example_pool"


definition with_texture :: "build_config \<Rightarrow> rdg_state" where
  "with_texture cfg = snd (projr (CreateTexture cfg example_desc ''A'' example_start))"

definition uav_only_desc :: FPooledRenderTargetDesc where
  "uav_only_desc = \<lparr>Extent = (4, 4), Format = 1, TargetableFlags = 16\<rparr>"

definition with_uav_texture :: "build_config \<Rightarrow> rdg_state" where
  "with_uav_texture cfg = snd (projr (CreateTexture cfg uav_only_desc ''U'' example_start))"

definition with_buffer :: "build_config \<Rightarrow> rdg_state" where
  "with_buffer cfg = snd (projr (CreateBuffer cfg example_buffer_desc ''B'' example_start))"

definition executed_empty :: "build_config \<Rightarrow> rdg_state" where
  "executed_empty cfg = projr (Execute cfg example_start)"

definition executed_with_texture :: "build_config \<Rightarrow> rdg_state" where
  "executed_with_texture cfg = projr (Execute cfg (with_uav_texture cfg))"

definition executed_with_buffer :: "build_config \<Rightarrow> rdg_state" where
  "executed_with_buffer cfg = projr (Execute cfg (with_buffer cfg))"

definition render_target_table :: FShaderParameterStructRef where
  "render_target_table =
     \<lparr>ResourceTable = [\<lparr>Resource = TextureRef 0, Access = Write, RenderTarget = True\<rparr>]\<rparr>"

text \<open>A small graph: texture 0 is external and only read, texture 1 is written by a
  graphics pass and read by a compute pass.\<close>

definition example_graph :: "rdg_call list" where
  "example_graph =
     [CallCreateTexture example_desc ''A'',
      CallAddPass ''Draw''
        \<lparr>ResourceTable = [\<lparr>Resource = TextureRef 1, Access = Write, RenderTarget = True\<rparr>]\<rparr>
        PassFlags_None 11,
      CallAddPass ''Blur''
        \<lparr>ResourceTable = [\<lparr>Resource = TextureRef 1, Access = Read, RenderTarget = False\<rparr>,
                          \<lparr>Resource = TextureRef 0, Access = Read, RenderTarget = False\<rparr>]\<rparr>
        PassFlags_Compute 12]"

definition example_registered :: "build_config \<Rightarrow> rdg_state" where
  "example_registered cfg =
     snd (projr (RegisterExternalTexture cfg (Some example_target) ''External'' example_start))"

definition example_declared :: "build_config \<Rightarrow> rdg_state" where
  "example_declared cfg = projr (run_calls cfg example_graph (example_registered cfg))"

definition example_queued :: "build_config \<Rightarrow> rdg_state" where
  "example_queued cfg =
     projr (QueueTextureExtraction cfg (Some 0) (Some 5) True (example_declared cfg))"

definition example_executed :: "build_config \<Rightarrow> rdg_state" where
  "example_executed cfg = projr (Execute cfg (example_queued cfg))"




definition scoped_program :: "rdg_call list" where
  "scoped_program =
     [EnterEventScope ''Frame'',
      CallCreateTexture example_desc ''A'',
      EnterEventScope ''Shadows'',
      LeaveEventScope,
      LeaveEventScope]"

section \<open>Properties\<close>

subsection \<open>Sequencing\<close>

lemma and_then_Inr_iff: "(and_then r f = Inr y) = (\<exists>v. r = Inr v \<and> f v = Inr y)"
  by (cases r) (simp_all add: and_then_def)

lemma and_then_Inl_iff:
  "(and_then r f = Inl e) = (r = Inl e \<or> (\<exists>v. r = Inr v \<and> f v = Inl e))"
  by (cases r) (simp_all add: and_then_def)

subsection \<open>Parameter structs are handed out zeroed\<close>

lemma Memzero_all: "Memzero bs (length bs) = replicate (length bs) 0"
  by (induction bs) simp_all

lemma AllocParameters_block:
  "ParameterBlocks (snd (AllocParameters c st)) ! fst (AllocParameters c st)
     = replicate (length c) 0"
  by (simp add: AllocParameters_def Let_def Memzero_all)

lemma AllocParameters_frame:
  "fst (AllocParameters c st) = length (ParameterBlocks st)
   \<and> take (length (ParameterBlocks st)) (ParameterBlocks (snd (AllocParameters c st)))
       = ParameterBlocks st
   \<and> Builder (snd (AllocParameters c st)) = Builder st"
  by (simp add: AllocParameters_def Let_def)

text \<open>
  C10. For a parameter struct type of any size, whatever its default constructor left in
  the block, the block \<^verbatim>\<open>AllocParameters\<close> returns is zero in every one of its
  \<^verbatim>\<open>sizeof\<close> bytes; two calls for the same type (blocks of the same size), on any
  builders, return equal blocks. The block is a new one: the pointer is the old end of
  the arena, the earlier blocks and the builder are as they were.
\<close>

theorem C10_AllocParameters_zeroed:
  assumes "length c1 = length c2"
  shows "ParameterBlocks (snd (AllocParameters c1 st1)) ! fst (AllocParameters c1 st1)
           = replicate (length c1) 0
       \<and> ParameterBlocks (snd (AllocParameters c2 st2)) ! fst (AllocParameters c2 st2)
           = ParameterBlocks (snd (AllocParameters c1 st1)) ! fst (AllocParameters c1 st1)
       \<and> fst (AllocParameters c1 st1) = length (ParameterBlocks st1)
       \<and> take (length (ParameterBlocks st1)) (ParameterBlocks (snd (AllocParameters c1 st1)))
           = ParameterBlocks st1
       \<and> Builder (snd (AllocParameters c1 st1)) = Builder st1"
proof -
  have "ParameterBlocks (snd (AllocParameters c2 st2)) ! fst (AllocParameters c2 st2)
          = replicate (length c1) 0"
    using assms AllocParameters_block [of c2 st2] by simp
  then show ?thesis
    using AllocParameters_block [of c1 st1] AllocParameters_frame [of c1 st1] by simp
qed

theorem C10_AllocParameters_zeroed_witness:
  "length [1, 2, 3 :: 8 word] = length [255, 254, 253 :: 8 word]
   \<and> ParameterBlocks (snd (AllocParameters [1, 2, 3] example_start))
       ! fst (AllocParameters [1, 2, 3] example_start) = [0, 0, 0]
   \<and> ParameterBlocks (snd (AllocParameters [255, 254, 253] example_start))
       ! fst (AllocParameters [255, 254, 253] example_start) = [0, 0, 0]"
proof -
  have len: "length [1, 2, 3 :: 8 word] = length [255, 254, 253 :: 8 word]" by simp
  note zeroed = C10_AllocParameters_zeroed [OF len, of example_start example_start]
  have first: "ParameterBlocks (snd (AllocParameters [1, 2, 3] example_start))
                 ! fst (AllocParameters [1, 2, 3] example_start) = [0, 0, 0]"
    using zeroed [THEN conjunct1] by (simp add: numeral_3_eq_3)
  have second: "ParameterBlocks (snd (AllocParameters [255, 254, 253] example_start))
                 ! fst (AllocParameters [255, 254, 253] example_start) = [0, 0, 0]"
    using zeroed [THEN conjunct2, THEN conjunct1] first by simp
  show ?thesis using len first second by simp
qed

subsection \<open>Allocation and release leave the declarations alone\<close>

lemmas macro_defs = debug_ensure_def debug_checkf_def ensureMsgf_def checkf_def
  RENDER_GRAPH_DEBUGGING_def and_then_def add_Resource_def deref_def read_through_def
  pointee_def Let_def

lemma only_allocation_changed_refl: "only_allocation_changed st st"
  by (simp add: only_allocation_changed_def)

lemma only_allocation_changed_trans:
  "only_allocation_changed a b \<Longrightarrow> only_allocation_changed b c \<Longrightarrow> only_allocation_changed a c"
  by (simp add: only_allocation_changed_def)

lemma acquire_texture_cases:
  "AllocateRHITextureIfNeeded i st = Inr st' \<Longrightarrow>
     st' = st \<or>
     (i < length (Textures st) \<and> PooledRenderTarget (Textures st ! i) = None \<and>
      (\<exists>rt pool'. st' = st\<lparr>Pool := pool',
             Textures := (Textures st)[i := (Textures st ! i)\<lparr>PooledRenderTarget := Some rt\<rparr>],
             Builder := (Builder st)\<lparr>AllocatedTextures := (AllocatedTextures (Builder st))(i \<mapsto> rt)\<rparr>,
             CheckedOut := TextureRef i # CheckedOut st\<rparr>))"
  by (auto simp: AllocateRHITextureIfNeeded_def split: if_splits option.splits)

lemma acquire_buffer_cases:
  "AllocateRHIBufferIfNeeded i st = Inr st' \<Longrightarrow>
     st' = st \<or>
     (\<exists>b pool'. st' = st\<lparr>Pool := pool',
             Builder := (Builder st)\<lparr>AllocatedBuffers := (AllocatedBuffers (Builder st))(i \<mapsto> b)\<rparr>,
             CheckedOut := BufferRef i # CheckedOut st\<rparr>)"
  by (auto simp: AllocateRHIBufferIfNeeded_def split: if_splits option.splits)

lemma acquire_resource_frame:
  assumes "acquire_resource r st = Inr st'"
  shows "only_allocation_changed st st' \<and> RHICmdList st' = RHICmdList st"
proof (cases r)
  case (TextureRef i)
  with assms show ?thesis
    by (auto dest!: acquire_texture_cases simp: only_allocation_changed_def)
next
  case (BufferRef i)
  with assms show ?thesis
    by (auto dest!: acquire_buffer_cases simp: only_allocation_changed_def)
qed (use assms in simp_all)

lemma acquire_resource_external:
  assumes "acquire_resource r st = Inr st'" and "external_binding st T P"
  shows "external_binding st' T P"
proof (cases r)
  case (TextureRef i)
  with assms show ?thesis
    by (auto dest!: acquire_texture_cases simp: external_binding_def nth_list_update)
next
  case (BufferRef i)
  with assms show ?thesis
    by (auto dest!: acquire_buffer_cases simp: external_binding_def)
qed (use assms in simp_all)

lemma checked_out_in_arena_iff:
  "checked_out_in_arena st = (\<forall>i. TextureRef i \<in> set (CheckedOut st) \<longrightarrow> i < length (Textures st))"
  by (auto simp: checked_out_in_arena_def list_all_iff split: FRDGResourceRef.splits)

lemma acquire_resource_arena:
  assumes "acquire_resource r st = Inr st'" and "checked_out_in_arena st"
  shows "checked_out_in_arena st'"
proof (cases r)
  case (TextureRef i)
  with assms show ?thesis
    by (auto dest!: acquire_texture_cases simp: checked_out_in_arena_iff)
next
  case (BufferRef i)
  with assms show ?thesis
    by (auto dest!: acquire_buffer_cases simp: checked_out_in_arena_iff)
qed (use assms in simp_all)

lemma acquire_all_frame:
  "acquire_all rs st = Inr st' \<Longrightarrow> only_allocation_changed st st' \<and> RHICmdList st' = RHICmdList st"
proof (induction rs arbitrary: st)
  case Nil
  then show ?case by (simp add: only_allocation_changed_refl)
next
  case (Cons r rs)
  then obtain st1 where a: "acquire_resource r st = Inr st1" and b: "acquire_all rs st1 = Inr st'"
    by (auto simp: and_then_Inr_iff)
  from acquire_resource_frame [OF a] Cons.IH [OF b] show ?case
    by (auto intro: only_allocation_changed_trans)
qed

lemma acquire_all_external:
  "acquire_all rs st = Inr st' \<Longrightarrow> external_binding st T P \<Longrightarrow> external_binding st' T P"
proof (induction rs arbitrary: st)
  case Nil
  then show ?case by simp
next
  case (Cons r rs)
  then obtain st1 where a: "acquire_resource r st = Inr st1" and b: "acquire_all rs st1 = Inr st'"
    by (auto simp: and_then_Inr_iff)
  from acquire_resource_external [OF a Cons.prems(2)] Cons.IH [OF b] show ?case by simp
qed

lemma acquire_all_arena:
  "acquire_all rs st = Inr st' \<Longrightarrow> checked_out_in_arena st \<Longrightarrow> checked_out_in_arena st'"
proof (induction rs arbitrary: st)
  case Nil
  then show ?case by simp
next
  case (Cons r rs)
  then obtain st1 where a: "acquire_resource r st = Inr st1" and b: "acquire_all rs st1 = Inr st'"
    by (auto simp: and_then_Inr_iff)
  from acquire_resource_arena [OF a Cons.prems(2)] Cons.IH [OF b] show ?case by simp
qed

lemma release_resource_frame:
  "only_allocation_changed st (release_resource r st)
   \<and> RHICmdList (release_resource r st) = RHICmdList st"
  by (cases r)
     (auto simp: ReleaseRHITextureIfPossible_def ReleaseRHIBufferIfPossible_def
                 only_allocation_changed_def split: option.splits)

lemma release_resource_external:
  "external_binding st T P \<Longrightarrow> external_binding (release_resource r st) T P"
  by (cases r)
     (auto simp: ReleaseRHITextureIfPossible_def ReleaseRHIBufferIfPossible_def
                 external_binding_def nth_list_update split: option.splits)

lemma release_resource_arena:
  "checked_out_in_arena st \<Longrightarrow> checked_out_in_arena (release_resource r st)"
  by (cases r)
     (auto simp: ReleaseRHITextureIfPossible_def ReleaseRHIBufferIfPossible_def
                 checked_out_in_arena_iff split: option.splits)

lemma release_all_frame:
  "only_allocation_changed st (ReleaseUnecessaryResources rs st)
   \<and> RHICmdList (ReleaseUnecessaryResources rs st) = RHICmdList st"
  unfolding ReleaseUnecessaryResources_def
proof (induction rs arbitrary: st)
  case Nil
  show ?case by (simp add: only_allocation_changed_refl)
next
  case (Cons r rs)
  from release_resource_frame [of st r] Cons.IH [of "release_resource r st"] show ?case
    by (auto intro: only_allocation_changed_trans)
qed

lemma release_all_external:
  "external_binding st T P \<Longrightarrow> external_binding (ReleaseUnecessaryResources rs st) T P"
  unfolding ReleaseUnecessaryResources_def
  by (induction rs arbitrary: st) (simp_all add: release_resource_external)

lemma release_all_arena:
  "checked_out_in_arena st \<Longrightarrow> checked_out_in_arena (ReleaseUnecessaryResources rs st)"
  unfolding ReleaseUnecessaryResources_def
  by (induction rs arbitrary: st) (simp_all add: release_resource_arena)

lemma invoked_append: "invoked (xs @ ys) = invoked xs @ invoked ys"
  by (induction xs rule: invoked.induct) simp_all

lemma invoked_transitions: "invoked (map (\<lambda>(r, t). TransitionResource t r) ts) = []"
  by (induction ts) (simp_all split: prod.splits)

lemma record_commands_frame: "only_allocation_changed st (record_commands cs st)"
  by (simp add: record_commands_def only_allocation_changed_def)

lemma record_commands_external:
  "external_binding (record_commands cs st) T P = external_binding st T P"
  by (simp add: record_commands_def external_binding_def)

lemma record_commands_arena:
  "checked_out_in_arena (record_commands cs st) = checked_out_in_arena st"
  by (simp add: record_commands_def checked_out_in_arena_iff)

lemma ExecutePass_Inr:
  assumes "ExecutePass plan p st = Inr st'"
  obtains st1 where "acquire_all (Acquires plan) st = Inr st1"
    and "st' = ReleaseUnecessaryResources (Releases plan)
           (record_commands
              ((if \<not> IsCompute p \<and> NumRenderTargets (ParameterStruct p) \<noteq> 0 then [BeginRenderPass] else [])
               @ [InvokeLambda (ExecuteLambda p)]
               @ (if \<not> IsCompute p \<and> NumRenderTargets (ParameterStruct p) \<noteq> 0 then [EndRenderPass] else []))
              (record_commands (map (\<lambda>(r, t). TransitionResource t r) (Transitions plan)) st1))"
  using assms by (auto simp: ExecutePass_def and_then_Inr_iff Let_def split: if_splits)

lemma ExecutePass_frame:
  assumes "ExecutePass plan p st = Inr st'"
  shows "only_allocation_changed st st'"
proof -
  from assms obtain st1 where a: "acquire_all (Acquires plan) st = Inr st1"
    and b: "st' = ReleaseUnecessaryResources (Releases plan)
           (record_commands
              ((if \<not> IsCompute p \<and> NumRenderTargets (ParameterStruct p) \<noteq> 0 then [BeginRenderPass] else [])
               @ [InvokeLambda (ExecuteLambda p)]
               @ (if \<not> IsCompute p \<and> NumRenderTargets (ParameterStruct p) \<noteq> 0 then [EndRenderPass] else []))
              (record_commands (map (\<lambda>(r, t). TransitionResource t r) (Transitions plan)) st1))"
    by (rule ExecutePass_Inr)
  from acquire_all_frame [OF a] have "only_allocation_changed st st1" by simp
  then show ?thesis
    unfolding b
    by (blast intro: only_allocation_changed_trans record_commands_frame
                     release_all_frame [THEN conjunct1])
qed

lemma ExecutePass_invoked:
  assumes "ExecutePass plan p st = Inr st'"
  shows "invoked (RHICmdList st') = invoked (RHICmdList st) @ [ExecuteLambda p]"
proof -
  from assms obtain st1 where a: "acquire_all (Acquires plan) st = Inr st1"
    and b: "st' = ReleaseUnecessaryResources (Releases plan)
           (record_commands
              ((if \<not> IsCompute p \<and> NumRenderTargets (ParameterStruct p) \<noteq> 0 then [BeginRenderPass] else [])
               @ [InvokeLambda (ExecuteLambda p)]
               @ (if \<not> IsCompute p \<and> NumRenderTargets (ParameterStruct p) \<noteq> 0 then [EndRenderPass] else []))
              (record_commands (map (\<lambda>(r, t). TransitionResource t r) (Transitions plan)) st1))"
    by (rule ExecutePass_Inr)
  from acquire_all_frame [OF a] have "RHICmdList st1 = RHICmdList st" by simp
  then show ?thesis
    unfolding b
    by (simp add: release_all_frame record_commands_def invoked_append invoked_transitions)
qed

lemma ExecutePass_external:
  assumes "ExecutePass plan p st = Inr st'" and "external_binding st T P"
  shows "external_binding st' T P"
proof -
  from assms(1) obtain st1 where a: "acquire_all (Acquires plan) st = Inr st1"
    and b: "st' = ReleaseUnecessaryResources (Releases plan)
           (record_commands
              ((if \<not> IsCompute p \<and> NumRenderTargets (ParameterStruct p) \<noteq> 0 then [BeginRenderPass] else [])
               @ [InvokeLambda (ExecuteLambda p)]
               @ (if \<not> IsCompute p \<and> NumRenderTargets (ParameterStruct p) \<noteq> 0 then [EndRenderPass] else []))
              (record_commands (map (\<lambda>(r, t). TransitionResource t r) (Transitions plan)) st1))"
    by (rule ExecutePass_Inr)
  from acquire_all_external [OF a assms(2)] show ?thesis
    unfolding b by (simp add: release_all_external record_commands_external)
qed

lemma ExecutePass_arena:
  assumes "ExecutePass plan p st = Inr st'" and "checked_out_in_arena st"
  shows "checked_out_in_arena st'"
proof -
  from assms(1) obtain st1 where a: "acquire_all (Acquires plan) st = Inr st1"
    and b: "st' = ReleaseUnecessaryResources (Releases plan)
           (record_commands
              ((if \<not> IsCompute p \<and> NumRenderTargets (ParameterStruct p) \<noteq> 0 then [BeginRenderPass] else [])
               @ [InvokeLambda (ExecuteLambda p)]
               @ (if \<not> IsCompute p \<and> NumRenderTargets (ParameterStruct p) \<noteq> 0 then [EndRenderPass] else []))
              (record_commands (map (\<lambda>(r, t). TransitionResource t r) (Transitions plan)) st1))"
    by (rule ExecutePass_Inr)
  from acquire_all_arena [OF a assms(2)] show ?thesis
    unfolding b by (simp add: release_all_arena record_commands_arena)
qed

lemma ExecutePasses_frame:
  "ExecutePasses pps st = Inr st' \<Longrightarrow> only_allocation_changed st st'"
proof (induction pps arbitrary: st)
  case Nil
  then show ?case by (simp add: only_allocation_changed_refl)
next
  case (Cons pp pps)
  obtain plan p where pp: "pp = (plan, p)" by (cases pp)
  with Cons.prems obtain st1 where a: "ExecutePass plan p st = Inr st1"
    and b: "ExecutePasses pps st1 = Inr st'"
    by (auto simp: and_then_Inr_iff)
  from ExecutePass_frame [OF a] Cons.IH [OF b] show ?case
    by (rule only_allocation_changed_trans)
qed

lemma ExecutePasses_invoked:
  "ExecutePasses pps st = Inr st' \<Longrightarrow>
     invoked (RHICmdList st') = invoked (RHICmdList st) @ map (ExecuteLambda \<circ> snd) pps"
proof (induction pps arbitrary: st)
  case Nil
  then show ?case by simp
next
  case (Cons pp pps)
  obtain plan p where pp: "pp = (plan, p)" by (cases pp)
  with Cons.prems obtain st1 where a: "ExecutePass plan p st = Inr st1"
    and b: "ExecutePasses pps st1 = Inr st'"
    by (auto simp: and_then_Inr_iff)
  from ExecutePass_invoked [OF a] Cons.IH [OF b] pp show ?case by simp
qed

lemma ExecutePasses_external:
  "ExecutePasses pps st = Inr st' \<Longrightarrow> external_binding st T P \<Longrightarrow> external_binding st' T P"
proof (induction pps arbitrary: st)
  case Nil
  then show ?case by simp
next
  case (Cons pp pps)
  obtain plan p where pp: "pp = (plan, p)" by (cases pp)
  with Cons.prems obtain st1 where a: "ExecutePass plan p st = Inr st1"
    and b: "ExecutePasses pps st1 = Inr st'"
    by (auto simp: and_then_Inr_iff)
  from ExecutePass_external [OF a Cons.prems(2)] Cons.IH [OF b] show ?case by simp
qed

lemma ExecutePasses_arena:
  "ExecutePasses pps st = Inr st' \<Longrightarrow> checked_out_in_arena st \<Longrightarrow> checked_out_in_arena st'"
proof (induction pps arbitrary: st)
  case Nil
  then show ?case by simp
next
  case (Cons pp pps)
  obtain plan p where pp: "pp = (plan, p)" by (cases pp)
  with Cons.prems obtain st1 where a: "ExecutePass plan p st = Inr st1"
    and b: "ExecutePasses pps st1 = Inr st'"
    by (auto simp: and_then_Inr_iff)
  from ExecutePass_arena [OF a Cons.prems(2)] Cons.IH [OF b] show ?case by simp
qed

lemma length_walk: "length (walk tbl keep prev accs) = length accs"
  by (induction accs arbitrary: prev) (simp_all add: Let_def split: prod.splits)

lemma length_WalkGraphDependencies:
  "length (WalkGraphDependencies cfg st) = length (Passes (Builder st))"
  by (simp add: WalkGraphDependencies_def length_walk)

text \<open>Resolution of the queue.\<close>

lemma ProcessDeferred_frame:
  "ProcessDeferredInternalResourceQueries qs st = Inr st' \<Longrightarrow>
     st' = st\<lparr>OutSlots := OutSlots st', RHICmdList := RHICmdList st'\<rparr>"
proof (induction qs arbitrary: st)
  case Nil
  then show ?case by simp
next
  case (Cons q qs)
  from Cons.prems obtain slot where s: "OutTexturePtr q = Some slot"
    by (auto simp: and_then_Inr_iff split: option.splits)
  from Cons.prems s obtain tex where t: "deref (Textures st) (QueryTexture q) = Inr tex"
    by (auto simp: and_then_Inr_iff)
  let ?st1 = "if bTransitionToRead q
              then record_commands [TransitionResource EReadable (TextureRef (the (QueryTexture q)))] st
              else st"
  let ?st2 = "?st1\<lparr>OutSlots := (OutSlots ?st1)(slot := PooledRenderTarget tex)\<rparr>"
  from Cons.prems s t have r: "ProcessDeferredInternalResourceQueries qs ?st2 = Inr st'"
    by (simp add: and_then_def Let_def)
  from Cons.IH [OF r] show ?case
    by (simp add: record_commands_def split: if_splits)
qed

lemma ProcessDeferred_slots:
  "ProcessDeferredInternalResourceQueries qs st = Inr st' \<Longrightarrow>
     OutSlots st' slot =
       (case last_request qs slot of
          None \<Rightarrow> OutSlots st slot
        | Some q \<Rightarrow> PooledRenderTarget (Textures st ! the (QueryTexture q)))"
proof (induction qs arbitrary: st)
  case Nil
  then show ?case by simp
next
  case (Cons q qs)
  from Cons.prems obtain s where s: "OutTexturePtr q = Some s"
    by (auto simp: and_then_Inr_iff split: option.splits)
  from Cons.prems s obtain tex where t: "deref (Textures st) (QueryTexture q) = Inr tex"
    by (auto simp: and_then_Inr_iff)
  then have tex: "tex = Textures st ! the (QueryTexture q)"
    by (auto simp: deref_def split: option.splits if_splits)
  let ?st1 = "if bTransitionToRead q
              then record_commands [TransitionResource EReadable (TextureRef (the (QueryTexture q)))] st
              else st"
  let ?st2 = "?st1\<lparr>OutSlots := (OutSlots ?st1)(s := PooledRenderTarget tex)\<rparr>"
  from Cons.prems s t have r: "ProcessDeferredInternalResourceQueries qs ?st2 = Inr st'"
    by (simp add: and_then_def Let_def)
  have same: "Textures ?st2 = Textures st" by (simp add: record_commands_def)
  have slots: "OutSlots ?st2 = (OutSlots st)(s := PooledRenderTarget tex)"
    by (simp add: record_commands_def)
  from Cons.IH [OF r] show ?case
    unfolding same slots using s tex by (simp split: option.splits)
qed

lemma ProcessDeferred_commands:
  "ProcessDeferredInternalResourceQueries qs st = Inr st' \<Longrightarrow>
     \<exists>cmds. RHICmdList st' = RHICmdList st @ cmds \<and> invoked cmds = []
       \<and> (\<forall>q\<in>set qs. bTransitionToRead q \<longrightarrow>
             TransitionResource EReadable (TextureRef (the (QueryTexture q))) \<in> set cmds)"
proof (induction qs arbitrary: st)
  case Nil
  then show ?case by simp
next
  case (Cons q qs)
  from Cons.prems obtain s where s: "OutTexturePtr q = Some s"
    by (auto simp: and_then_Inr_iff split: option.splits)
  from Cons.prems s obtain tex where t: "deref (Textures st) (QueryTexture q) = Inr tex"
    by (auto simp: and_then_Inr_iff)
  let ?c = "if bTransitionToRead q
            then [TransitionResource EReadable (TextureRef (the (QueryTexture q)))] else []"
  let ?st2 = "st\<lparr>RHICmdList := RHICmdList st @ ?c,
                 OutSlots := (OutSlots st)(s := PooledRenderTarget tex)\<rparr>"
  from Cons.prems s t have r: "ProcessDeferredInternalResourceQueries qs ?st2 = Inr st'"
    by (cases "bTransitionToRead q") (simp_all add: and_then_def Let_def record_commands_def)
  from Cons.IH [OF r] obtain cmds where c: "RHICmdList st' = (RHICmdList st @ ?c) @ cmds"
    and i: "invoked cmds = []"
    and a: "\<forall>q\<in>set qs. bTransitionToRead q \<longrightarrow>
             TransitionResource EReadable (TextureRef (the (QueryTexture q))) \<in> set cmds"
    by auto
  show ?case
  proof (intro exI conjI)
    show "RHICmdList st' = RHICmdList st @ (?c @ cmds)" using c by simp
    show "invoked (?c @ cmds) = []" using i by (simp add: invoked_append)
    show "\<forall>q\<in>set (q # qs). bTransitionToRead q \<longrightarrow>
             TransitionResource EReadable (TextureRef (the (QueryTexture q))) \<in> set (?c @ cmds)"
      using a by auto
  qed
qed

subsection \<open>What \<^verbatim>\<open>Execute\<close> and \<^verbatim>\<open>AddPass\<close> change\<close>




lemma ExecuteDeclaredPasses_frame:
  assumes "ExecuteDeclaredPasses cfg st = Inr st1"
  shows "only_allocation_changed st st1"
    and "invoked (RHICmdList st1) = invoked (RHICmdList st) @
           (if ImmediateMode cfg then [] else map ExecuteLambda (Passes (Builder st)))"
    and "external_binding st T P \<Longrightarrow> external_binding st1 T P"
    and "checked_out_in_arena st \<Longrightarrow> checked_out_in_arena st1"
proof -
  show "only_allocation_changed st st1"
    using assms
    by (auto simp: ExecuteDeclaredPasses_def only_allocation_changed_refl
             dest: ExecutePasses_frame split: if_splits)
  show "invoked (RHICmdList st1) = invoked (RHICmdList st) @
           (if ImmediateMode cfg then [] else map ExecuteLambda (Passes (Builder st)))"
  proof (cases "ImmediateMode cfg")
    case True
    with assms show ?thesis by (simp add: ExecuteDeclaredPasses_def)
  next
    case False
    with assms have "ExecutePasses (zip (WalkGraphDependencies cfg st) (Passes (Builder st))) st = Inr st1"
      by (simp add: ExecuteDeclaredPasses_def)
    from ExecutePasses_invoked [OF this] False show ?thesis
      by (simp add: length_WalkGraphDependencies flip: map_map)
  qed
  show "external_binding st T P \<Longrightarrow> external_binding st1 T P"
    using assms
    by (auto simp: ExecuteDeclaredPasses_def dest: ExecutePasses_external split: if_splits)
  show "checked_out_in_arena st \<Longrightarrow> checked_out_in_arena st1"
    using assms
    by (auto simp: ExecuteDeclaredPasses_def dest: ExecutePasses_arena split: if_splits)
qed

lemma Execute_Inr:
  assumes "Execute cfg st = Inr st'"
  obtains st1 st2 where "\<not> (DO_CHECK cfg \<and> bHasExecuted (Builder st))"
    and "ExecuteDeclaredPasses cfg st = Inr st1"
    and "ProcessDeferredInternalResourceQueries (DeferredInternalTextureQueries (Builder st1)) st1 = Inr st2"
    and "st' = mark_executed cfg (ReleaseUnecessaryResources (CheckedOut st2) st2)"
  using assms
  by (auto simp: Execute_def and_then_Inr_iff debug_checkf_def checkf_def
                 RENDER_GRAPH_DEBUGGING_def Let_def mark_executed_def split: if_splits)

lemma mark_executed_simps:
  "Passes (Builder (mark_executed cfg st)) = Passes (Builder st)"
  "DeferredInternalTextureQueries (Builder (mark_executed cfg st)) = DeferredInternalTextureQueries (Builder st)"
  "CurrentScope (Builder (mark_executed cfg st)) = CurrentScope (Builder st)"
  "EventScopeArena (mark_executed cfg st) = EventScopeArena st"
  "OutSlots (mark_executed cfg st) = OutSlots st"
  "Diagnostics (mark_executed cfg st) = Diagnostics st"
  "RHICmdList (mark_executed cfg st) = RHICmdList st"
  "external_binding (mark_executed cfg st) T P = external_binding st T P"
  "checked_out_in_arena (mark_executed cfg st) = checked_out_in_arena st"
  by (simp_all add: mark_executed_def external_binding_def checked_out_in_arena_iff)

lemma ProcessDeferred_fields:
  assumes "ProcessDeferredInternalResourceQueries qs st = Inr st'"
  shows "Builder st' = Builder st" and "Textures st' = Textures st"
    and "CheckedOut st' = CheckedOut st" and "EventScopeArena st' = EventScopeArena st"
    and "Diagnostics st' = Diagnostics st"
proof -
  note f = ProcessDeferred_frame [OF assms]
  show "Builder st' = Builder st" by (subst f) simp
  show "Textures st' = Textures st" by (subst f) simp
  show "CheckedOut st' = CheckedOut st" by (subst f) simp
  show "EventScopeArena st' = EventScopeArena st" by (subst f) simp
  show "Diagnostics st' = Diagnostics st" by (subst f) simp
qed

lemma Execute_kept:
  assumes "Execute cfg st = Inr st'"
  shows "Passes (Builder st') = Passes (Builder st)"
    and "DeferredInternalTextureQueries (Builder st') = DeferredInternalTextureQueries (Builder st)"
    and "CurrentScope (Builder st') = CurrentScope (Builder st)"
    and "EventScopeArena st' = EventScopeArena st"
    and "Diagnostics st' = Diagnostics st"
proof -
  from assms obtain st1 st2 where
    a: "ExecuteDeclaredPasses cfg st = Inr st1"
    and b: "ProcessDeferredInternalResourceQueries (DeferredInternalTextureQueries (Builder st1)) st1 = Inr st2"
    and c: "st' = mark_executed cfg (ReleaseUnecessaryResources (CheckedOut st2) st2)"
    by (rule Execute_Inr)
  note f1 = ExecuteDeclaredPasses_frame(1) [OF a, unfolded only_allocation_changed_def]
  note f2 = ProcessDeferred_fields [OF b]
  note f3 = release_all_frame [of st2 "CheckedOut st2", THEN conjunct1, unfolded only_allocation_changed_def]
  show "Passes (Builder st') = Passes (Builder st)"
    unfolding c using f1 f2 f3 by (simp add: mark_executed_simps)
  show "DeferredInternalTextureQueries (Builder st') = DeferredInternalTextureQueries (Builder st)"
    unfolding c using f1 f2 f3 by (simp add: mark_executed_simps)
  show "CurrentScope (Builder st') = CurrentScope (Builder st)"
    unfolding c using f1 f2 f3 by (simp add: mark_executed_simps)
  show "EventScopeArena st' = EventScopeArena st"
    unfolding c using f1 f2 f3 by (simp add: mark_executed_simps)
  show "Diagnostics st' = Diagnostics st"
    unfolding c using f1 f2 f3 by (simp add: mark_executed_simps)
qed

lemma Execute_invoked:
  assumes "Execute cfg st = Inr st'"
  shows "invoked (RHICmdList st') = invoked (RHICmdList st) @
           (if ImmediateMode cfg then [] else map ExecuteLambda (Passes (Builder st)))"
proof -
  from assms obtain st1 st2 where
    a: "ExecuteDeclaredPasses cfg st = Inr st1"
    and b: "ProcessDeferredInternalResourceQueries (DeferredInternalTextureQueries (Builder st1)) st1 = Inr st2"
    and c: "st' = mark_executed cfg (ReleaseUnecessaryResources (CheckedOut st2) st2)"
    by (rule Execute_Inr)
  from ProcessDeferred_commands [OF b] have "invoked (RHICmdList st2) = invoked (RHICmdList st1)"
    by (auto simp: invoked_append)
  with ExecuteDeclaredPasses_frame(2) [OF a] show ?thesis
    unfolding c by (simp add: mark_executed_simps release_all_frame)
qed

lemma Execute_external:
  assumes "Execute cfg st = Inr st'" and "external_binding st T P"
  shows "external_binding st' T P"
proof -
  from assms(1) obtain st1 st2 where
    a: "ExecuteDeclaredPasses cfg st = Inr st1"
    and b: "ProcessDeferredInternalResourceQueries (DeferredInternalTextureQueries (Builder st1)) st1 = Inr st2"
    and c: "st' = mark_executed cfg (ReleaseUnecessaryResources (CheckedOut st2) st2)"
    by (rule Execute_Inr)
  from ExecuteDeclaredPasses_frame(3) [OF a assms(2)] have "external_binding st1 T P" .
  then have "external_binding st2 T P"
    using ProcessDeferred_fields [OF b] by (simp add: external_binding_def)
  then show ?thesis
    unfolding c by (simp add: mark_executed_simps release_all_external)
qed

lemma Execute_arena:
  assumes "Execute cfg st = Inr st'" and "checked_out_in_arena st"
  shows "checked_out_in_arena st'"
proof -
  from assms(1) obtain st1 st2 where
    a: "ExecuteDeclaredPasses cfg st = Inr st1"
    and b: "ProcessDeferredInternalResourceQueries (DeferredInternalTextureQueries (Builder st1)) st1 = Inr st2"
    and c: "st' = mark_executed cfg (ReleaseUnecessaryResources (CheckedOut st2) st2)"
    by (rule Execute_Inr)
  from ExecuteDeclaredPasses_frame(4) [OF a assms(2)] have "checked_out_in_arena st1" .
  then have "checked_out_in_arena st2"
    using ProcessDeferred_fields [OF b] by (simp add: checked_out_in_arena_iff)
  then show ?thesis
    unfolding c by (simp add: mark_executed_simps release_all_arena)
qed

lemma Execute_slots:
  assumes "Execute cfg st = Inr st'"
  shows "\<exists>st1. ExecuteDeclaredPasses cfg st = Inr st1 \<and>
           OutSlots st' slot =
             (case last_request (DeferredInternalTextureQueries (Builder st)) slot of
                None \<Rightarrow> OutSlots st slot
              | Some q \<Rightarrow> PooledRenderTarget (Textures st1 ! the (QueryTexture q)))"
proof -
  from assms obtain st1 st2 where
    a: "ExecuteDeclaredPasses cfg st = Inr st1"
    and b: "ProcessDeferredInternalResourceQueries (DeferredInternalTextureQueries (Builder st1)) st1 = Inr st2"
    and c: "st' = mark_executed cfg (ReleaseUnecessaryResources (CheckedOut st2) st2)"
    by (rule Execute_Inr)
  note f1 = ExecuteDeclaredPasses_frame(1) [OF a, unfolded only_allocation_changed_def]
  note f3 = release_all_frame [of st2 "CheckedOut st2", THEN conjunct1, unfolded only_allocation_changed_def]
  have "OutSlots st' slot = OutSlots st2 slot"
    unfolding c using f3 by (simp add: mark_executed_simps)
  also have "\<dots> = (case last_request (DeferredInternalTextureQueries (Builder st1)) slot of
                None \<Rightarrow> OutSlots st1 slot
              | Some q \<Rightarrow> PooledRenderTarget (Textures st1 ! the (QueryTexture q)))"
    by (rule ProcessDeferred_slots [OF b])
  finally show ?thesis using a f1 by (auto split: option.splits)
qed


lemmas create_defs = RegisterExternalTexture_def CreateTexture_def CreateBuffer_def
  CreateSRV_Texture_def CreateSRV_Buffer_def CreateUAV_Texture_def CreateUAV_Buffer_def

lemmas simple_call_defs = create_defs macro_defs dropping_handle_def AllocParameters_def
  QueueTextureExtraction_def new_FStackRDGEventScopeRef_def delete_FStackRDGEventScopeRef_def

lemma DebugPass_Inr:
  assumes "DebugPass cfg p st = Inr st'"
  shows "if GRenderGraphImmediateMode cfg
         then ExecutePass ((last (WalkGraphDependencies cfg st))\<lparr>Releases := []\<rparr>) p st = Inr st'
         else st' = st"
  using assms by (auto simp: DebugPass_def split: if_splits)

lemma AddPass_Inr:
  assumes "AddPass cfg n ps f l st = Inr st'"
  obtains sta where
    "\<not> (DO_CHECK cfg \<and> bHasExecuted (Builder st))"
    and "sta = (if DO_CHECK cfg \<and> IsCompute (new_pass n (CurrentScope (Builder st)) ps f l)
                   \<and> NumRenderTargets ps \<noteq> 0
                then reported InvalidComputePass st else st)"
    and "DO_CHECK cfg \<and> IsCompute (new_pass n (CurrentScope (Builder st)) ps f l)
           \<and> NumRenderTargets ps \<noteq> 0 \<longrightarrow> \<not> EnsureHalts cfg"
    and "if DO_CHECK cfg
         then DebugPass cfg (new_pass n (CurrentScope (Builder st)) ps f l)
                (appended_pass (new_pass n (CurrentScope (Builder st)) ps f l) sta) = Inr st'
         else st' = appended_pass (new_pass n (CurrentScope (Builder st)) ps f l) sta"
  using assms
  by (auto simp: AddPass_def new_TLambdaRenderPass_def and_then_Inr_iff debug_checkf_def
                 checkf_def ensureMsgf_def RENDER_GRAPH_DEBUGGING_def Let_def new_pass_def
                 reported_def appended_pass_def
           split: if_splits)

lemma AddPass_step:
  assumes "AddPass cfg n ps f l st = Inr st'"
  shows "\<exists>stb. only_allocation_changed stb st'
           \<and> stb = appended_pass (new_pass n (CurrentScope (Builder st)) ps f l)
                     (if DO_CHECK cfg \<and> IsCompute (new_pass n (CurrentScope (Builder st)) ps f l)
                         \<and> NumRenderTargets ps \<noteq> 0
                      then reported InvalidComputePass st else st)
           \<and> invoked (RHICmdList st') = invoked (RHICmdList st) @ (if ImmediateMode cfg then [l] else [])
           \<and> (\<forall>T P. external_binding stb T P \<longrightarrow> external_binding st' T P)
           \<and> (checked_out_in_arena stb \<longrightarrow> checked_out_in_arena st')"
proof -
  let ?p = "new_pass n (CurrentScope (Builder st)) ps f l"
  from assms obtain sta where
    sta: "sta = (if DO_CHECK cfg \<and> IsCompute ?p \<and> NumRenderTargets ps \<noteq> 0
                then reported InvalidComputePass st else st)"
    and dbg: "if DO_CHECK cfg then DebugPass cfg ?p (appended_pass ?p sta) = Inr st'
              else st' = appended_pass ?p sta"
    by (rule AddPass_Inr)
  have cmds: "RHICmdList (appended_pass ?p sta) = RHICmdList st"
    by (simp add: sta appended_pass_def reported_def)
  have l: "ExecuteLambda ?p = l" by (simp add: new_pass_def)
  show ?thesis
  proof (cases "DO_CHECK cfg \<and> GRenderGraphImmediateMode cfg")
    case True
    with dbg DebugPass_Inr [of cfg ?p "appended_pass ?p sta" st'] obtain plan where
      e: "ExecutePass plan ?p (appended_pass ?p sta) = Inr st'"
      by auto
    from ExecutePass_frame [OF e] ExecutePass_invoked [OF e] ExecutePass_external [OF e]
      ExecutePass_arena [OF e] True cmds l sta
    show ?thesis by (auto simp: ImmediateMode_def)
  next
    case False
    with dbg DebugPass_Inr [of cfg ?p "appended_pass ?p sta" st']
    have "st' = appended_pass ?p sta" by (auto split: if_splits)
    with False cmds sta show ?thesis
      by (auto simp: ImmediateMode_def only_allocation_changed_refl)
  qed
qed

subsection \<open>What a call, and a run of calls, changes\<close>

lemma appended_reported_simps:
  "external_binding (appended_pass p st) T P = external_binding st T P"
  "external_binding (reported e st) T P = external_binding st T P"
  "checked_out_in_arena (appended_pass p st) = checked_out_in_arena st"
  "checked_out_in_arena (reported e st) = checked_out_in_arena st"
  by (simp_all add: appended_pass_def reported_def external_binding_def checked_out_in_arena_iff)

lemma do_call_external:
  assumes "do_call cfg c st = Inr st'" and "external_binding st T P"
  shows "external_binding st' T P"
proof (cases c)
  case (CallAddPass n ps f l)
  with assms(1) have "AddPass cfg n ps f l st = Inr st'" by simp
  from AddPass_step [OF this] assms(2) show ?thesis
    by (auto simp: appended_reported_simps split: if_splits)
next
  case CallExecute
  with assms show ?thesis by (auto dest: Execute_external)
qed (use assms in \<open>auto simp: simple_call_defs external_binding_def nth_append
                        split: option.splits if_splits\<close>)

lemma do_call_arena:
  assumes "do_call cfg c st = Inr st'" and "checked_out_in_arena st"
  shows "checked_out_in_arena st'"
proof (cases c)
  case (CallAddPass n ps f l)
  with assms(1) have "AddPass cfg n ps f l st = Inr st'" by simp
  from AddPass_step [OF this] assms(2) show ?thesis
    by (auto simp: appended_reported_simps split: if_splits)
next
  case CallExecute
  with assms show ?thesis by (auto dest: Execute_arena)
qed (use assms in \<open>auto simp: simple_call_defs checked_out_in_arena_iff
                        split: option.splits if_splits\<close>)

lemma do_call_scope:
  assumes "do_call cfg c st = Inr st'"
  shows "\<exists>xs. EventScopeArena st' = EventScopeArena st @ xs"
    and "\<not> is_scope_call c \<Longrightarrow> CurrentScope (Builder st') = CurrentScope (Builder st)"
proof -
  show "\<exists>xs. EventScopeArena st' = EventScopeArena st @ xs"
  proof (cases c)
    case (CallAddPass n ps f l)
    with assms(1) have "AddPass cfg n ps f l st = Inr st'" by simp
    from AddPass_step [OF this] show ?thesis
      by (auto simp: only_allocation_changed_def appended_pass_def reported_def split: if_splits)
  next
    case CallExecute
    with assms show ?thesis by (auto dest: Execute_kept)
  qed (use assms in \<open>auto simp: simple_call_defs split: option.splits if_splits\<close>)
  show "CurrentScope (Builder st') = CurrentScope (Builder st)" if "\<not> is_scope_call c"
  proof (cases c)
    case (CallAddPass n ps f l)
    with assms(1) have "AddPass cfg n ps f l st = Inr st'" by simp
    from AddPass_step [OF this] show ?thesis
      by (auto simp: only_allocation_changed_def appended_pass_def reported_def split: if_splits)
  next
    case CallExecute
    with assms show ?thesis by (auto dest: Execute_kept)
  qed (use assms that in \<open>auto simp: simple_call_defs split: option.splits if_splits\<close>)
qed

lemma do_call_slots:
  assumes "do_call cfg c st = Inr st'" and "c \<noteq> CallExecute"
  shows "OutSlots st' = OutSlots st"
proof (cases c)
  case (CallAddPass n ps f l)
  with assms(1) have "AddPass cfg n ps f l st = Inr st'" by simp
  from AddPass_step [OF this] show ?thesis
    by (auto simp: only_allocation_changed_def appended_pass_def reported_def split: if_splits)
qed (use assms in \<open>auto simp: simple_call_defs split: option.splits if_splits\<close>)


lemma do_call_invoked:
  assumes "do_call cfg c st = Inr st'"
  shows "invoked (RHICmdList st') = invoked (RHICmdList st) @
           (case c of
              CallAddPass n ps f l \<Rightarrow> if ImmediateMode cfg then [l] else []
            | CallExecute \<Rightarrow> if ImmediateMode cfg then [] else map ExecuteLambda (Passes (Builder st))
            | _ \<Rightarrow> [])"
proof (cases c)
  case (CallAddPass n ps f l)
  with assms(1) have "AddPass cfg n ps f l st = Inr st'" by simp
  from AddPass_step [OF this] CallAddPass show ?thesis by auto
next
  case CallExecute
  with assms Execute_invoked [of cfg st st'] show ?thesis by simp
qed (use assms in \<open>auto simp: simple_call_defs split: option.splits if_splits\<close>)

lemma do_call_passes:
  assumes "do_call cfg c st = Inr st'"
  shows "Passes (Builder st') = Passes (Builder st) @
           (case c of
              CallAddPass n ps f l \<Rightarrow> [new_pass n (CurrentScope (Builder st)) ps f l]
            | _ \<Rightarrow> [])"
proof (cases c)
  case (CallAddPass n ps f l)
  with assms(1) have "AddPass cfg n ps f l st = Inr st'" by simp
  from AddPass_step [OF this] CallAddPass show ?thesis
    by (auto simp: only_allocation_changed_def appended_pass_def reported_def split: if_splits)
next
  case CallExecute
  with assms show ?thesis by (auto dest: Execute_kept)
qed (use assms in \<open>auto simp: simple_call_defs split: option.splits if_splits\<close>)



lemma run_calls_append:
  "run_calls cfg (cs @ ds) st = and_then (run_calls cfg cs st) (run_calls cfg ds)"
  by (induction cs arbitrary: st) (simp_all add: and_then_def split: sum.splits)

lemma run_calls_Cons_Inr:
  assumes "run_calls cfg (c # cs) st = Inr st'"
  obtains st1 where "do_call cfg c st = Inr st1" and "run_calls cfg cs st1 = Inr st'"
  using assms by (auto simp: and_then_Inr_iff)

lemma run_calls_external:
  "run_calls cfg cs st = Inr st' \<Longrightarrow> external_binding st T P \<Longrightarrow> external_binding st' T P"
proof (induction cs arbitrary: st)
  case Nil
  then show ?case by simp
next
  case (Cons c cs)
  from Cons.prems(1) obtain st1 where a: "do_call cfg c st = Inr st1"
    and b: "run_calls cfg cs st1 = Inr st'" by (rule run_calls_Cons_Inr)
  from do_call_external [OF a Cons.prems(2)] Cons.IH [OF b] show ?case by simp
qed

lemma run_calls_arena:
  "run_calls cfg cs st = Inr st' \<Longrightarrow> checked_out_in_arena st \<Longrightarrow> checked_out_in_arena st'"
proof (induction cs arbitrary: st)
  case Nil
  then show ?case by simp
next
  case (Cons c cs)
  from Cons.prems(1) obtain st1 where a: "do_call cfg c st = Inr st1"
    and b: "run_calls cfg cs st1 = Inr st'" by (rule run_calls_Cons_Inr)
  from do_call_arena [OF a Cons.prems(2)] Cons.IH [OF b] show ?case by simp
qed

lemma run_calls_arena_prefix:
  "run_calls cfg cs st = Inr st' \<Longrightarrow> \<exists>xs. EventScopeArena st' = EventScopeArena st @ xs"
proof (induction cs arbitrary: st)
  case Nil
  then show ?case by simp
next
  case (Cons c cs)
  from Cons.prems(1) obtain st1 where a: "do_call cfg c st = Inr st1"
    and b: "run_calls cfg cs st1 = Inr st'" by (rule run_calls_Cons_Inr)
  from do_call_scope(1) [OF a] Cons.IH [OF b] show ?case by auto
qed


lemma run_calls_slots:
  "run_calls cfg cs st = Inr st' \<Longrightarrow> CallExecute \<notin> set cs \<Longrightarrow> OutSlots st' = OutSlots st"
proof (induction cs arbitrary: st)
  case Nil
  then show ?case by simp
next
  case (Cons c cs)
  from Cons.prems(1) obtain st1 where a: "do_call cfg c st = Inr st1"
    and b: "run_calls cfg cs st1 = Inr st'" by (rule run_calls_Cons_Inr)
  from do_call_slots [OF a] Cons.IH [OF b] Cons.prems(2) show ?case by auto
qed

lemma Execute_all_slots:
  assumes "Execute cfg st = Inr st'"
  shows "\<exists>sp. ExecuteDeclaredPasses cfg st = Inr sp \<and>
           (\<forall>slot. OutSlots st' slot =
             (case last_request (DeferredInternalTextureQueries (Builder st)) slot of
                None \<Rightarrow> OutSlots st slot
              | Some q \<Rightarrow> PooledRenderTarget (Textures sp ! the (QueryTexture q))))"
proof -
  from assms obtain sp where sp: "ExecuteDeclaredPasses cfg st = Inr sp"
    by (rule Execute_Inr)
  have "OutSlots st' slot =
             (case last_request (DeferredInternalTextureQueries (Builder st)) slot of
                None \<Rightarrow> OutSlots st slot
              | Some q \<Rightarrow> PooledRenderTarget (Textures sp ! the (QueryTexture q)))" for slot
    using Execute_slots [OF assms, of slot] sp by auto
  with sp show ?thesis by blast
qed

lemma Inr_projr: "\<not> isl x \<Longrightarrow> x = Inr (projr x)"
  by (cases x) simp_all

lemma Inr_pair_projr: "\<not> isl x \<Longrightarrow> fst (projr x) = h \<Longrightarrow> x = Inr (h, snd (projr x))"
  by (cases x) auto

lemma registered_Inr:
  "RegisterExternalTexture cfg (Some example_target) ''External'' example_start
     = Inr (0, example_registered cfg)"
proof -
  have "\<not> isl (RegisterExternalTexture cfg (Some example_target) ''External'' example_start)"
    by (simp add: RegisterExternalTexture_def macro_defs)
  moreover have "fst (projr (RegisterExternalTexture cfg (Some example_target) ''External''
      example_start)) = 0"
    by (simp add: RegisterExternalTexture_def macro_defs example_start_def initial_state_def)
  ultimately show ?thesis
    unfolding example_registered_def by (rule Inr_pair_projr)
qed

lemma declared_Inr:
  "run_calls development_build example_graph (example_registered development_build)
     = Inr (example_declared development_build)"
proof -
  have "\<not> isl (run_calls development_build example_graph (example_registered development_build))"
    by code_simp
  then show ?thesis unfolding example_declared_def by (rule Inr_projr)
qed

lemma queued_Inr:
  "QueueTextureExtraction development_build (Some 0) (Some 5) True
     (example_declared development_build) = Inr (example_queued development_build)"
proof -
  have "\<not> isl (QueueTextureExtraction development_build (Some 0) (Some 5) True
     (example_declared development_build))"
    by code_simp
  then show ?thesis unfolding example_queued_def by (rule Inr_projr)
qed

lemma executed_Inr:
  "Execute development_build (example_queued development_build)
     = Inr (example_executed development_build)"
proof -
  have "\<not> isl (Execute development_build (example_queued development_build))"
    by code_simp
  then show ?thesis unfolding example_executed_def by (rule Inr_projr)
qed

subsection \<open>Declarations after \<^verbatim>\<open>Execute\<close>\<close>

text \<open>
  C1. In a build with \<^verbatim>\<open>DO_CHECK\<close>, on a builder whose executed flag is set:
  \<^verbatim>\<open>AddPass\<close>, and \<^verbatim>\<open>QueueTextureExtraction\<close> with non-null pointers, test the flag with
  \<^verbatim>\<open>checkf\<close> and stop with \<open>UseAfterExecute\<close>. \<^verbatim>\<open>CreateTexture\<close>, \<^verbatim>\<open>CreateBuffer\<close>, and
  \<^verbatim>\<open>CreateSRV\<close> and \<^verbatim>\<open>CreateUAV\<close> on any non-null resource, test it with \<^verbatim>\<open>ensureMsgf\<close>:
  where that halts, the call stops with \<open>UseAfterExecute\<close>; where it only reports, the
  call returns the builder with \<open>UseAfterExecute\<close> reported (for a view of a texture
  followed by \<open>CapabilityMismatch\<close> if the texture lacks the flag), the new resource
  appended to its arena and to \<open>Resources\<close>, and everything else as it was.
\<close>

theorem C1_declaration_after_execute:
  assumes "DO_CHECK cfg" and "bHasExecuted (Builder st)"
  shows "AddPass cfg n ps f l st = Inl UseAfterExecute
       \<and> (t \<noteq> None \<and> out \<noteq> None \<longrightarrow>
            QueueTextureExtraction cfg t out b st = Inl UseAfterExecute)
       \<and> CreateTexture cfg td nm st =
           (if EnsureHalts cfg then Inl UseAfterExecute
            else Inr (length (Textures st),
                      st\<lparr>Diagnostics := Diagnostics st @ [UseAfterExecute],
                         Textures := Textures st @
                           [\<lparr>TexName = nm, TexDesc = td, PooledRenderTarget = None\<rparr>],
                         Builder := (Builder st)\<lparr>Resources := Resources (Builder st) @
                           [TextureRef (length (Textures st))]\<rparr>\<rparr>))
       \<and> CreateBuffer cfg bd nm st =
           (if EnsureHalts cfg then Inl UseAfterExecute
            else Inr (length (Buffers st),
                      st\<lparr>Diagnostics := Diagnostics st @ [UseAfterExecute],
                         Buffers := Buffers st @ [\<lparr>BufName = nm, BufDesc = bd\<rparr>],
                         Builder := (Builder st)\<lparr>Resources := Resources (Builder st) @
                           [BufferRef (length (Buffers st))]\<rparr>\<rparr>))
       \<and> (DescTexture d = Some ti \<longrightarrow>
            CreateSRV_Texture cfg d st =
              (if EnsureHalts cfg then Inl UseAfterExecute
               else Inr (length (TextureSRVs st),
                         st\<lparr>Diagnostics := Diagnostics st @ UseAfterExecute #
                              (if TargetableFlags (TexDesc
                                    (pointee (Textures st) (TexturesElsewhere cfg) ti))
                                  AND TexCreate_ShaderResource cfg = 0
                               then [CapabilityMismatch] else []),
                            TextureSRVs := TextureSRVs st @
                              [(TexName (pointee (Textures st) (TexturesElsewhere cfg) ti), d)],
                            Builder := (Builder st)\<lparr>Resources := Resources (Builder st) @
                              [TextureSRVRef (length (TextureSRVs st))]\<rparr>\<rparr>))
          \<and> CreateUAV_Texture cfg d st =
              (if EnsureHalts cfg then Inl UseAfterExecute
               else Inr (length (TextureUAVs st),
                         st\<lparr>Diagnostics := Diagnostics st @ UseAfterExecute #
                              (if TargetableFlags (TexDesc
                                    (pointee (Textures st) (TexturesElsewhere cfg) ti))
                                  AND TexCreate_UAV cfg = 0
                               then [CapabilityMismatch] else []),
                            TextureUAVs := TextureUAVs st @
                              [(TexName (pointee (Textures st) (TexturesElsewhere cfg) ti), d)],
                            Builder := (Builder st)\<lparr>Resources := Resources (Builder st) @
                              [TextureUAVRef (length (TextureUAVs st))]\<rparr>\<rparr>)))
       \<and> (DescBuffer db = Some bi \<longrightarrow>
            CreateSRV_Buffer cfg db st =
              (if EnsureHalts cfg then Inl UseAfterExecute
               else Inr (length (BufferSRVs st),
                         st\<lparr>Diagnostics := Diagnostics st @ [UseAfterExecute],
                            BufferSRVs := BufferSRVs st @
                              [(BufName (pointee (Buffers st) (BuffersElsewhere cfg) bi), db)],
                            Builder := (Builder st)\<lparr>Resources := Resources (Builder st) @
                              [BufferSRVRef (length (BufferSRVs st))]\<rparr>\<rparr>))
          \<and> CreateUAV_Buffer cfg db st =
              (if EnsureHalts cfg then Inl UseAfterExecute
               else Inr (length (BufferUAVs st),
                         st\<lparr>Diagnostics := Diagnostics st @ [UseAfterExecute],
                            BufferUAVs := BufferUAVs st @
                              [(BufName (pointee (Buffers st) (BuffersElsewhere cfg) bi), db)],
                            Builder := (Builder st)\<lparr>Resources := Resources (Builder st) @
                              [BufferUAVRef (length (BufferUAVs st))]\<rparr>\<rparr>)))"
proof -
  have pass: "AddPass cfg n ps f l st = Inl UseAfterExecute"
    using assms by (simp add: AddPass_def macro_defs)
  have queue: "t \<noteq> None \<and> out \<noteq> None \<longrightarrow>
                 QueueTextureExtraction cfg t out b st = Inl UseAfterExecute"
    using assms by (simp add: QueueTextureExtraction_def macro_defs)
  have texture: "CreateTexture cfg td nm st =
           (if EnsureHalts cfg then Inl UseAfterExecute
            else Inr (length (Textures st),
                      st\<lparr>Diagnostics := Diagnostics st @ [UseAfterExecute],
                         Textures := Textures st @
                           [\<lparr>TexName = nm, TexDesc = td, PooledRenderTarget = None\<rparr>],
                         Builder := (Builder st)\<lparr>Resources := Resources (Builder st) @
                           [TextureRef (length (Textures st))]\<rparr>\<rparr>))"
    using assms by (simp add: CreateTexture_def macro_defs)
  have buffer: "CreateBuffer cfg bd nm st =
           (if EnsureHalts cfg then Inl UseAfterExecute
            else Inr (length (Buffers st),
                      st\<lparr>Diagnostics := Diagnostics st @ [UseAfterExecute],
                         Buffers := Buffers st @ [\<lparr>BufName = nm, BufDesc = bd\<rparr>],
                         Builder := (Builder st)\<lparr>Resources := Resources (Builder st) @
                           [BufferRef (length (Buffers st))]\<rparr>\<rparr>))"
    using assms by (simp add: CreateBuffer_def macro_defs)
  have texture_srv: "DescTexture d = Some ti \<longrightarrow>
            CreateSRV_Texture cfg d st =
              (if EnsureHalts cfg then Inl UseAfterExecute
               else Inr (length (TextureSRVs st),
                         st\<lparr>Diagnostics := Diagnostics st @ UseAfterExecute #
                              (if TargetableFlags (TexDesc
                                    (pointee (Textures st) (TexturesElsewhere cfg) ti))
                                  AND TexCreate_ShaderResource cfg = 0
                               then [CapabilityMismatch] else []),
                            TextureSRVs := TextureSRVs st @
                              [(TexName (pointee (Textures st) (TexturesElsewhere cfg) ti), d)],
                            Builder := (Builder st)\<lparr>Resources := Resources (Builder st) @
                              [TextureSRVRef (length (TextureSRVs st))]\<rparr>\<rparr>))"
    using assms
    by (simp add: CreateSRV_Texture_def debug_ensure_def ensureMsgf_def checkf_def
          RENDER_GRAPH_DEBUGGING_def and_then_def add_Resource_def read_through_def Let_def)
  have texture_uav: "DescTexture d = Some ti \<longrightarrow>
            CreateUAV_Texture cfg d st =
              (if EnsureHalts cfg then Inl UseAfterExecute
               else Inr (length (TextureUAVs st),
                         st\<lparr>Diagnostics := Diagnostics st @ UseAfterExecute #
                              (if TargetableFlags (TexDesc
                                    (pointee (Textures st) (TexturesElsewhere cfg) ti))
                                  AND TexCreate_UAV cfg = 0
                               then [CapabilityMismatch] else []),
                            TextureUAVs := TextureUAVs st @
                              [(TexName (pointee (Textures st) (TexturesElsewhere cfg) ti), d)],
                            Builder := (Builder st)\<lparr>Resources := Resources (Builder st) @
                              [TextureUAVRef (length (TextureUAVs st))]\<rparr>\<rparr>))"
    using assms
    by (simp add: CreateUAV_Texture_def debug_ensure_def ensureMsgf_def checkf_def
          RENDER_GRAPH_DEBUGGING_def and_then_def add_Resource_def read_through_def Let_def)
  have buffer_srv: "DescBuffer db = Some bi \<longrightarrow>
            CreateSRV_Buffer cfg db st =
              (if EnsureHalts cfg then Inl UseAfterExecute
               else Inr (length (BufferSRVs st),
                         st\<lparr>Diagnostics := Diagnostics st @ [UseAfterExecute],
                            BufferSRVs := BufferSRVs st @
                              [(BufName (pointee (Buffers st) (BuffersElsewhere cfg) bi), db)],
                            Builder := (Builder st)\<lparr>Resources := Resources (Builder st) @
                              [BufferSRVRef (length (BufferSRVs st))]\<rparr>\<rparr>))"
    using assms
    by (simp add: CreateSRV_Buffer_def debug_ensure_def ensureMsgf_def checkf_def
          RENDER_GRAPH_DEBUGGING_def and_then_def add_Resource_def read_through_def Let_def)
  have buffer_uav: "DescBuffer db = Some bi \<longrightarrow>
            CreateUAV_Buffer cfg db st =
              (if EnsureHalts cfg then Inl UseAfterExecute
               else Inr (length (BufferUAVs st),
                         st\<lparr>Diagnostics := Diagnostics st @ [UseAfterExecute],
                            BufferUAVs := BufferUAVs st @
                              [(BufName (pointee (Buffers st) (BuffersElsewhere cfg) bi), db)],
                            Builder := (Builder st)\<lparr>Resources := Resources (Builder st) @
                              [BufferUAVRef (length (BufferUAVs st))]\<rparr>\<rparr>))"
    using assms
    by (simp add: CreateUAV_Buffer_def debug_ensure_def ensureMsgf_def checkf_def
          RENDER_GRAPH_DEBUGGING_def and_then_def add_Resource_def read_through_def Let_def)
  from pass queue texture buffer texture_srv texture_uav buffer_srv buffer_uav
  show ?thesis by blast
qed

theorem C1_declaration_after_execute_witness:
  "DO_CHECK halting_build \<and> bHasExecuted (Builder (executed_with_texture halting_build))
   \<and> AddPass halting_build ''Late'' render_target_table PassFlags_None 13
       (executed_with_texture halting_build) = Inl UseAfterExecute
   \<and> QueueTextureExtraction halting_build (Some 0) (Some 5) True
       (executed_with_texture halting_build) = Inl UseAfterExecute
   \<and> CreateTexture halting_build example_desc ''A'' (executed_with_texture halting_build)
       = Inl UseAfterExecute
   \<and> CreateSRV_Texture halting_build \<lparr>DescTexture = Some 0\<rparr>
       (executed_with_texture halting_build) = Inl UseAfterExecute
   \<and> DO_CHECK development_build
   \<and> bHasExecuted (Builder (executed_with_texture development_build))
   \<and> Textures (snd (projr (CreateTexture development_build example_desc ''A''
        (executed_with_texture development_build))))
       = [\<lparr>TexName = ''U'', TexDesc = uav_only_desc, PooledRenderTarget = None\<rparr>,
          \<lparr>TexName = ''A'', TexDesc = example_desc, PooledRenderTarget = None\<rparr>]
   \<and> Resources (Builder (snd (projr (CreateTexture development_build example_desc ''A''
        (executed_with_texture development_build))))) = [TextureRef 0, TextureRef 1]
   \<and> Diagnostics (snd (projr (CreateSRV_Texture development_build \<lparr>DescTexture = Some 0\<rparr>
        (executed_with_texture development_build)))) = [UseAfterExecute, CapabilityMismatch]
   \<and> TextureSRVs (snd (projr (CreateSRV_Texture development_build \<lparr>DescTexture = Some 0\<rparr>
        (executed_with_texture development_build)))) = [(''U'', \<lparr>DescTexture = Some 0\<rparr>)]
   \<and> bHasExecuted (Builder (executed_with_buffer development_build))
   \<and> BufferUAVs (snd (projr (CreateUAV_Buffer development_build \<lparr>DescBuffer = Some 0\<rparr>
        (executed_with_buffer development_build)))) = [(''B'', \<lparr>DescBuffer = Some 0\<rparr>)]
   \<and> Resources (Builder (snd (projr (CreateUAV_Buffer development_build \<lparr>DescBuffer = Some 0\<rparr>
        (executed_with_buffer development_build))))) = [BufferRef 0, BufferUAVRef 0]"
proof -
  have a: "DO_CHECK halting_build" by code_simp
  have b: "bHasExecuted (Builder (executed_with_texture halting_build))" by code_simp
  have e: "EnsureHalts halting_build" by code_simp
  have a': "DO_CHECK development_build" by code_simp
  have b': "bHasExecuted (Builder (executed_with_texture development_build))" by code_simp
  have b'': "bHasExecuted (Builder (executed_with_buffer development_build))" by code_simp
  have e': "\<not> EnsureHalts development_build" by code_simp
  have halting: "AddPass halting_build ''Late'' render_target_table PassFlags_None 13
         (executed_with_texture halting_build) = Inl UseAfterExecute
      \<and> QueueTextureExtraction halting_build (Some 0) (Some 5) True
         (executed_with_texture halting_build) = Inl UseAfterExecute
      \<and> CreateTexture halting_build example_desc ''A'' (executed_with_texture halting_build)
         = Inl UseAfterExecute
      \<and> CreateSRV_Texture halting_build \<lparr>DescTexture = Some 0\<rparr>
         (executed_with_texture halting_build) = Inl UseAfterExecute"
    using C1_declaration_after_execute
            [OF a b, where n = "''Late''" and ps = render_target_table and f = PassFlags_None
               and l = 13 and t = "Some 0" and out = "Some 5" and b = True
               and td = example_desc and nm = "''A''" and d = "\<lparr>DescTexture = Some 0\<rparr>"
               and ti = 0] e
    by simp
  have tex: "Textures (executed_with_texture development_build)
               = [\<lparr>TexName = ''U'', TexDesc = uav_only_desc, PooledRenderTarget = None\<rparr>]"
    by code_simp
  have res: "Resources (Builder (executed_with_texture development_build)) = [TextureRef 0]"
    by code_simp
  have diag: "Diagnostics (executed_with_texture development_build) = []" by code_simp
  have srvs: "TextureSRVs (executed_with_texture development_build) = []" by code_simp
  have flag: "TargetableFlags (TexDesc (pointee (Textures (executed_with_texture development_build))
                 (TexturesElsewhere development_build) 0))
               AND TexCreate_ShaderResource development_build = 0"
    by code_simp
  have name: "TexName (pointee (Textures (executed_with_texture development_build))
                 (TexturesElsewhere development_build) 0) = ''U''"
    by code_simp
  have reporting: "Textures (snd (projr (CreateTexture development_build example_desc ''A''
        (executed_with_texture development_build))))
       = [\<lparr>TexName = ''U'', TexDesc = uav_only_desc, PooledRenderTarget = None\<rparr>,
          \<lparr>TexName = ''A'', TexDesc = example_desc, PooledRenderTarget = None\<rparr>]
   \<and> Resources (Builder (snd (projr (CreateTexture development_build example_desc ''A''
        (executed_with_texture development_build))))) = [TextureRef 0, TextureRef 1]
   \<and> Diagnostics (snd (projr (CreateSRV_Texture development_build \<lparr>DescTexture = Some 0\<rparr>
        (executed_with_texture development_build)))) = [UseAfterExecute, CapabilityMismatch]
   \<and> TextureSRVs (snd (projr (CreateSRV_Texture development_build \<lparr>DescTexture = Some 0\<rparr>
        (executed_with_texture development_build)))) = [(''U'', \<lparr>DescTexture = Some 0\<rparr>)]"
    using C1_declaration_after_execute
            [OF a' b', where td = example_desc and nm = "''A''"
               and d = "\<lparr>DescTexture = Some 0\<rparr>" and ti = 0] e' tex res diag srvs flag name
    by simp
  have bufs: "BufferUAVs (executed_with_buffer development_build) = []" by code_simp
  have bres: "Resources (Builder (executed_with_buffer development_build)) = [BufferRef 0]"
    by code_simp
  have bname: "BufName (pointee (Buffers (executed_with_buffer development_build))
                 (BuffersElsewhere development_build) 0) = ''B''"
    by code_simp
  have buffers: "BufferUAVs (snd (projr (CreateUAV_Buffer development_build \<lparr>DescBuffer = Some 0\<rparr>
        (executed_with_buffer development_build)))) = [(''B'', \<lparr>DescBuffer = Some 0\<rparr>)]
   \<and> Resources (Builder (snd (projr (CreateUAV_Buffer development_build \<lparr>DescBuffer = Some 0\<rparr>
        (executed_with_buffer development_build))))) = [BufferRef 0, BufferUAVRef 0]"
    using C1_declaration_after_execute
            [OF a' b'', where db = "\<lparr>DescBuffer = Some 0\<rparr>" and bi = 0] e' bufs bres bname
    by simp
  show ?thesis using a b halting a' b' reporting b'' buffers by simp
qed

text \<open>
  C1 does not hold for every declaration call and build: after \<^verbatim>\<open>Execute\<close>,
  \<^verbatim>\<open>RegisterExternalTexture\<close> (which never tests the flag) registers a texture even where
  a failed \<^verbatim>\<open>ensureMsgf\<close> halts, and in a build where it only reports \<^verbatim>\<open>CreateTexture\<close>
  still creates its texture.
\<close>

theorem C1_counterexample:
  "\<not> isl (Execute halting_build example_start)
   \<and> bHasExecuted (Builder (executed_empty halting_build))
   \<and> \<not> isl (RegisterExternalTexture halting_build (Some example_target) ''External''
              (executed_empty halting_build))
   \<and> Resources (Builder (executed_empty halting_build)) = []
   \<and> Resources (Builder (snd (projr (RegisterExternalTexture halting_build (Some example_target)
        ''External'' (executed_empty halting_build))))) = [TextureRef 0]
   \<and> \<not> isl (Execute development_build example_start)
   \<and> bHasExecuted (Builder (executed_empty development_build))
   \<and> \<not> isl (CreateTexture development_build example_desc ''A'' (executed_empty development_build))
   \<and> Resources (Builder (snd (projr (CreateTexture development_build example_desc ''A''
        (executed_empty development_build))))) = [TextureRef 0]"
  by code_simp

subsection \<open>Compute passes with render targets\<close>





subsection \<open>Capabilities of views\<close>

text \<open>
  C3. In a build with \<^verbatim>\<open>DO_CHECK\<close>, before execution, creating an SRV over any non-null
  texture whose descriptor lacks \<^verbatim>\<open>TexCreate_ShaderResource\<close>, or a UAV over one that
  lacks \<^verbatim>\<open>TexCreate_UAV\<close>, raises \<open>CapabilityMismatch\<close>: where a failed \<^verbatim>\<open>ensureMsgf\<close>
  halts, the call stops with it; where it only reports, the call returns the builder with
  \<open>CapabilityMismatch\<close> reported, the view (named after the texture) appended to its
  arena and to \<open>Resources\<close>, and everything else as it was.
\<close>

theorem C3_texture_view_capability:
  assumes "DO_CHECK cfg" and "\<not> bHasExecuted (Builder st)" and "DescTexture d = Some t"
  shows "(TargetableFlags (TexDesc (pointee (Textures st) (TexturesElsewhere cfg) t))
            AND TexCreate_ShaderResource cfg = 0 \<longrightarrow>
            CreateSRV_Texture cfg d st =
              (if EnsureHalts cfg then Inl CapabilityMismatch
               else Inr (length (TextureSRVs st),
                         st\<lparr>Diagnostics := Diagnostics st @ [CapabilityMismatch],
                            TextureSRVs := TextureSRVs st @
                              [(TexName (pointee (Textures st) (TexturesElsewhere cfg) t), d)],
                            Builder := (Builder st)\<lparr>Resources := Resources (Builder st) @
                              [TextureSRVRef (length (TextureSRVs st))]\<rparr>\<rparr>)))
       \<and> (TargetableFlags (TexDesc (pointee (Textures st) (TexturesElsewhere cfg) t))
            AND TexCreate_UAV cfg = 0 \<longrightarrow>
            CreateUAV_Texture cfg d st =
              (if EnsureHalts cfg then Inl CapabilityMismatch
               else Inr (length (TextureUAVs st),
                         st\<lparr>Diagnostics := Diagnostics st @ [CapabilityMismatch],
                            TextureUAVs := TextureUAVs st @
                              [(TexName (pointee (Textures st) (TexturesElsewhere cfg) t), d)],
                            Builder := (Builder st)\<lparr>Resources := Resources (Builder st) @
                              [TextureUAVRef (length (TextureUAVs st))]\<rparr>\<rparr>)))"
  using assms
  by (simp add: CreateSRV_Texture_def CreateUAV_Texture_def debug_ensure_def ensureMsgf_def
        checkf_def RENDER_GRAPH_DEBUGGING_def and_then_def add_Resource_def read_through_def
        Let_def)

theorem C3_texture_view_capability_witness:
  "DO_CHECK halting_build \<and> \<not> bHasExecuted (Builder (with_texture halting_build))
   \<and> TargetableFlags (TexDesc (pointee (Textures (with_texture halting_build))
        (TexturesElsewhere halting_build) 0)) AND TexCreate_UAV halting_build = 0
   \<and> CreateUAV_Texture halting_build \<lparr>DescTexture = Some 0\<rparr> (with_texture halting_build)
       = Inl CapabilityMismatch
   \<and> \<not> bHasExecuted (Builder (with_uav_texture halting_build))
   \<and> TargetableFlags (TexDesc (pointee (Textures (with_uav_texture halting_build))
        (TexturesElsewhere halting_build) 0)) AND TexCreate_ShaderResource halting_build = 0
   \<and> CreateSRV_Texture halting_build \<lparr>DescTexture = Some 0\<rparr> (with_uav_texture halting_build)
       = Inl CapabilityMismatch
   \<and> DO_CHECK development_build \<and> \<not> bHasExecuted (Builder (with_texture development_build))
   \<and> TargetableFlags (TexDesc (pointee (Textures (with_texture development_build))
        (TexturesElsewhere development_build) 0)) AND TexCreate_UAV development_build = 0
   \<and> Diagnostics (snd (projr (CreateUAV_Texture development_build \<lparr>DescTexture = Some 0\<rparr>
        (with_texture development_build)))) = [CapabilityMismatch]
   \<and> TextureUAVs (snd (projr (CreateUAV_Texture development_build \<lparr>DescTexture = Some 0\<rparr>
        (with_texture development_build)))) = [(''A'', \<lparr>DescTexture = Some 0\<rparr>)]
   \<and> Resources (Builder (snd (projr (CreateUAV_Texture development_build \<lparr>DescTexture = Some 0\<rparr>
        (with_texture development_build))))) = [TextureRef 0, TextureUAVRef 0]
   \<and> TargetableFlags (TexDesc (pointee (Textures (with_texture development_build))
        (TexturesElsewhere development_build) 3)) AND TexCreate_UAV development_build = 0
   \<and> TextureUAVs (snd (projr (CreateUAV_Texture development_build \<lparr>DescTexture = Some 3\<rparr>
        (with_texture development_build)))) = [(''Elsewhere'', \<lparr>DescTexture = Some 3\<rparr>)]"
proof -
  have a: "DO_CHECK halting_build" by code_simp
  have f: "EnsureHalts halting_build" by code_simp
  have b: "\<not> bHasExecuted (Builder (with_texture halting_build))" by code_simp
  have e: "TargetableFlags (TexDesc (pointee (Textures (with_texture halting_build))
        (TexturesElsewhere halting_build) 0)) AND TexCreate_UAV halting_build = 0"
    by code_simp
  have b': "\<not> bHasExecuted (Builder (with_uav_texture halting_build))" by code_simp
  have e': "TargetableFlags (TexDesc (pointee (Textures (with_uav_texture halting_build))
        (TexturesElsewhere halting_build) 0)) AND TexCreate_ShaderResource halting_build = 0"
    by code_simp
  have uav: "CreateUAV_Texture halting_build \<lparr>DescTexture = Some 0\<rparr>
               (with_texture halting_build) = Inl CapabilityMismatch"
    using C3_texture_view_capability
            [OF a b, where d = "\<lparr>DescTexture = Some 0\<rparr>" and t = 0, THEN conjunct2] e f
    by simp
  have srv: "CreateSRV_Texture halting_build \<lparr>DescTexture = Some 0\<rparr>
               (with_uav_texture halting_build) = Inl CapabilityMismatch"
    using C3_texture_view_capability
            [OF a b', where d = "\<lparr>DescTexture = Some 0\<rparr>" and t = 0, THEN conjunct1] e' f
    by simp
  have a'': "DO_CHECK development_build" by code_simp
  have f'': "\<not> EnsureHalts development_build" by code_simp
  have b'': "\<not> bHasExecuted (Builder (with_texture development_build))" by code_simp
  have e'': "TargetableFlags (TexDesc (pointee (Textures (with_texture development_build))
        (TexturesElsewhere development_build) 0)) AND TexCreate_UAV development_build = 0"
    by code_simp
  have name: "TexName (pointee (Textures (with_texture development_build))
                (TexturesElsewhere development_build) 0) = ''A''"
    by code_simp
  have diag: "Diagnostics (with_texture development_build) = []" by code_simp
  have uavs: "TextureUAVs (with_texture development_build) = []" by code_simp
  have res: "Resources (Builder (with_texture development_build)) = [TextureRef 0]"
    by code_simp
  have reporting: "Diagnostics (snd (projr (CreateUAV_Texture development_build
        \<lparr>DescTexture = Some 0\<rparr> (with_texture development_build)))) = [CapabilityMismatch]
   \<and> TextureUAVs (snd (projr (CreateUAV_Texture development_build \<lparr>DescTexture = Some 0\<rparr>
        (with_texture development_build)))) = [(''A'', \<lparr>DescTexture = Some 0\<rparr>)]
   \<and> Resources (Builder (snd (projr (CreateUAV_Texture development_build \<lparr>DescTexture = Some 0\<rparr>
        (with_texture development_build))))) = [TextureRef 0, TextureUAVRef 0]"
    using C3_texture_view_capability
            [OF a'' b'', where d = "\<lparr>DescTexture = Some 0\<rparr>" and t = 0, THEN conjunct2]
          e'' f'' name diag uavs res
    by simp
  have e3: "TargetableFlags (TexDesc (pointee (Textures (with_texture development_build))
        (TexturesElsewhere development_build) 3)) AND TexCreate_UAV development_build = 0"
    by code_simp
  have name3: "TexName (pointee (Textures (with_texture development_build))
                (TexturesElsewhere development_build) 3) = ''Elsewhere''"
    by code_simp
  have elsewhere: "TextureUAVs (snd (projr (CreateUAV_Texture development_build
        \<lparr>DescTexture = Some 3\<rparr> (with_texture development_build))))
       = [(''Elsewhere'', \<lparr>DescTexture = Some 3\<rparr>)]"
    using C3_texture_view_capability
            [OF a'' b'', where d = "\<lparr>DescTexture = Some 3\<rparr>" and t = 3, THEN conjunct2]
          e3 f'' name3 uavs
    by simp
  show ?thesis using a b e uav b' e' srv a'' b'' e'' reporting e3 elsewhere by simp
qed

text \<open>
  C3 does not hold uniformly: views of buffers are created without any test of the
  buffer's usage flags, and where \<^verbatim>\<open>ensureMsgf\<close> only reports, a UAV is created over a texture that
  lacks \<^verbatim>\<open>TexCreate_UAV\<close>.
\<close>

theorem C3_counterexample:
  "Usage (BufDesc (Buffers (with_buffer halting_build) ! 0)) = 0
   \<and> \<not> isl (CreateUAV_Buffer halting_build \<lparr>DescBuffer = Some 0\<rparr> (with_buffer halting_build))
   \<and> \<not> isl (CreateSRV_Buffer halting_build \<lparr>DescBuffer = Some 0\<rparr> (with_buffer halting_build))
   \<and> Diagnostics (snd (projr (CreateUAV_Buffer halting_build \<lparr>DescBuffer = Some 0\<rparr>
        (with_buffer halting_build)))) = []
   \<and> TargetableFlags (TexDesc (Textures (with_texture development_build) ! 0))
        AND TexCreate_UAV development_build = 0
   \<and> \<not> isl (CreateUAV_Texture development_build \<lparr>DescTexture = Some 0\<rparr>
              (with_texture development_build))
   \<and> TextureUAVs (snd (projr (CreateUAV_Texture development_build \<lparr>DescTexture = Some 0\<rparr>
        (with_texture development_build)))) = [(''A'', \<lparr>DescTexture = Some 0\<rparr>)]"
  by code_simp

subsection \<open>Callbacks run in declaration order\<close>

lemma run_calls_immediate_invoked:
  "run_calls cfg cs st = Inr st' \<Longrightarrow> ImmediateMode cfg \<Longrightarrow>
     invoked (RHICmdList st) = map ExecuteLambda (Passes (Builder st)) \<Longrightarrow>
     invoked (RHICmdList st') = map ExecuteLambda (Passes (Builder st'))"
proof (induction cs arbitrary: st)
  case Nil
  then show ?case by simp
next
  case (Cons c cs)
  from Cons.prems(1) obtain st1 where a: "do_call cfg c st = Inr st1"
    and b: "run_calls cfg cs st1 = Inr st'" by (rule run_calls_Cons_Inr)
  have "invoked (RHICmdList st1) = map ExecuteLambda (Passes (Builder st1))"
    using do_call_invoked [OF a] do_call_passes [OF a] Cons.prems(2,3)
    by (cases c) (simp_all add: new_pass_def)
  from Cons.IH [OF b Cons.prems(2) this] show ?case .
qed

lemma run_calls_deferred_invoked:
  "run_calls cfg cs st = Inr st' \<Longrightarrow> \<not> ImmediateMode cfg \<Longrightarrow> CallExecute \<notin> set cs \<Longrightarrow>
     invoked (RHICmdList st') = invoked (RHICmdList st)"
proof (induction cs arbitrary: st)
  case Nil
  then show ?case by simp
next
  case (Cons c cs)
  from Cons.prems(1) obtain st1 where a: "do_call cfg c st = Inr st1"
    and b: "run_calls cfg cs st1 = Inr st'" by (rule run_calls_Cons_Inr)
  have "invoked (RHICmdList st1) = invoked (RHICmdList st)"
    using do_call_invoked [OF a] Cons.prems(2,3) by (cases c) simp_all
  with Cons.IH [OF b Cons.prems(2)] Cons.prems(3) show ?case by simp
qed

text \<open>
  C4. Outside the immediate mode, an \<^verbatim>\<open>Execute\<close> that completes invokes the lambda of
  every pass of the builder once, in the order the passes were added, and
  \<^verbatim>\<open>AddPass\<close> invokes nothing. In the immediate mode \<^verbatim>\<open>AddPass\<close> invokes the lambda of the
  pass it appends, and \<^verbatim>\<open>Execute\<close> invokes none. In both modes, a run of calls on a new
  builder that ends with its first \<^verbatim>\<open>Execute\<close> has invoked exactly the lambdas of the
  passes held, in declaration order.
\<close>

theorem C4_callbacks_in_declaration_order:
  "(Execute cfg st = Inr st' \<longrightarrow>
      Passes (Builder st') = Passes (Builder st)
      \<and> invoked (RHICmdList st') = invoked (RHICmdList st) @
          (if ImmediateMode cfg then [] else map ExecuteLambda (Passes (Builder st))))
   \<and> (AddPass cfg n ps f l st = Inr st1 \<longrightarrow>
        map ExecuteLambda (Passes (Builder st1)) = map ExecuteLambda (Passes (Builder st)) @ [l]
        \<and> invoked (RHICmdList st1) = invoked (RHICmdList st) @
            (if ImmediateMode cfg then [l] else []))
   \<and> (ImmediateMode cfg \<and> run_calls cfg cs (initial_state slots pool) = Inr st2 \<longrightarrow>
        invoked (RHICmdList st2) = map ExecuteLambda (Passes (Builder st2)))
   \<and> (\<not> ImmediateMode cfg \<and> CallExecute \<notin> set cs
        \<and> run_calls cfg (cs @ [CallExecute]) (initial_state slots pool) = Inr st3 \<longrightarrow>
        invoked (RHICmdList st3) = map ExecuteLambda (Passes (Builder st3)))"
proof (intro conjI impI)
  assume e: "Execute cfg st = Inr st'"
  from Execute_kept(1) [OF e] show "Passes (Builder st') = Passes (Builder st)" .
  from Execute_invoked [OF e] show "invoked (RHICmdList st') = invoked (RHICmdList st) @
          (if ImmediateMode cfg then [] else map ExecuteLambda (Passes (Builder st)))" .
next
  assume a: "AddPass cfg n ps f l st = Inr st1"
  then have d: "do_call cfg (CallAddPass n ps f l) st = Inr st1" by simp
  from do_call_passes [OF d]
  show "map ExecuteLambda (Passes (Builder st1)) = map ExecuteLambda (Passes (Builder st)) @ [l]"
    by (simp add: new_pass_def)
  from do_call_invoked [OF d]
  show "invoked (RHICmdList st1) = invoked (RHICmdList st) @ (if ImmediateMode cfg then [l] else [])"
    by simp
next
  assume "ImmediateMode cfg \<and> run_calls cfg cs (initial_state slots pool) = Inr st2"
  then show "invoked (RHICmdList st2) = map ExecuteLambda (Passes (Builder st2))"
    using run_calls_immediate_invoked [of cfg cs "initial_state slots pool" st2]
    by (simp add: initial_state_def new_FRDGBuilder_def)
next
  assume h: "\<not> ImmediateMode cfg \<and> CallExecute \<notin> set cs
        \<and> run_calls cfg (cs @ [CallExecute]) (initial_state slots pool) = Inr st3"
  then obtain sa where a: "run_calls cfg cs (initial_state slots pool) = Inr sa"
    and e: "Execute cfg sa = Inr st3"
    by (auto simp: run_calls_append and_then_Inr_iff)
  from run_calls_deferred_invoked [OF a] h have "invoked (RHICmdList sa) = []"
    by (simp add: initial_state_def)
  with Execute_invoked [OF e] Execute_kept(1) [OF e] h
  show "invoked (RHICmdList st3) = map ExecuteLambda (Passes (Builder st3))" by simp
qed

theorem C4_callbacks_in_declaration_order_witness:
  "invoked (RHICmdList (example_executed development_build))
     = invoked (RHICmdList (example_queued development_build)) @ [11, 12]
   \<and> invoked (RHICmdList (projr (AddPass immediate_build ''Draw'' render_target_table
        PassFlags_None 11 (with_texture immediate_build)))) = [11]
   \<and> invoked (RHICmdList (projr (run_calls immediate_build
        (CallRegisterExternalTexture (Some example_target) ''External'' # example_graph
         @ [CallExecute]) example_start))) = [11, 12]
   \<and> invoked (RHICmdList (projr (run_calls development_build
        ((CallRegisterExternalTexture (Some example_target) ''External'' # example_graph)
         @ [CallExecute]) example_start))) = [11, 12]"
proof -
  let ?decl = "CallRegisterExternalTexture (Some example_target) ''External'' # example_graph"
  have dm: "\<not> ImmediateMode development_build" by code_simp
  have im: "ImmediateMode immediate_build" by code_simp
  have passes: "map ExecuteLambda (Passes (Builder (example_queued development_build))) = [11, 12]"
    by code_simp
  have first: "invoked (RHICmdList (example_executed development_build))
     = invoked (RHICmdList (example_queued development_build)) @ [11, 12]"
    using C4_callbacks_in_declaration_order
            [where cfg = development_build and st = "example_queued development_build"
               and st' = "example_executed development_build", THEN conjunct1]
          executed_Inr dm passes
    by simp
  let ?a = "AddPass immediate_build ''Draw'' render_target_table PassFlags_None 11
              (with_texture immediate_build)"
  have "\<not> isl ?a" by code_simp
  then have a: "?a = Inr (projr ?a)" by (rule Inr_projr)
  have before: "invoked (RHICmdList (with_texture immediate_build)) = []" by code_simp
  have second: "invoked (RHICmdList (projr ?a)) = [11]"
    using C4_callbacks_in_declaration_order
            [where cfg = immediate_build and n = "''Draw''" and ps = render_target_table
               and f = PassFlags_None and l = 11 and st = "with_texture immediate_build"
               and ?st1.0 = "projr ?a",
             THEN conjunct2, THEN conjunct1] a im before
    by simp
  let ?ri = "run_calls immediate_build (?decl @ [CallExecute]) example_start"
  have "\<not> isl ?ri" by code_simp
  then have "?ri = Inr (projr ?ri)" by (rule Inr_projr)
  then have ri: "run_calls immediate_build (?decl @ [CallExecute])
                   (initial_state (\<lambda>slot. None) example_pool) = Inr (projr ?ri)"
    by (simp only: example_start_def)
  have pi: "map ExecuteLambda (Passes (Builder (projr ?ri))) = [11, 12]" by code_simp
  have third: "invoked (RHICmdList (projr ?ri)) = [11, 12]"
    using C4_callbacks_in_declaration_order
            [where cfg = immediate_build and cs = "?decl @ [CallExecute]"
               and slots = "\<lambda>slot. None" and pool = example_pool and ?st2.0 = "projr ?ri",
             THEN conjunct2, THEN conjunct2, THEN conjunct1] ri im pi
    by simp
  let ?rd = "run_calls development_build (?decl @ [CallExecute]) example_start"
  have "\<not> isl ?rd" by code_simp
  then have "?rd = Inr (projr ?rd)" by (rule Inr_projr)
  then have rd: "run_calls development_build (?decl @ [CallExecute])
                   (initial_state (\<lambda>slot. None) example_pool) = Inr (projr ?rd)"
    by (simp only: example_start_def)
  have noexec: "CallExecute \<notin> set ?decl" by code_simp
  have pd: "map ExecuteLambda (Passes (Builder (projr ?rd))) = [11, 12]" by code_simp
  have fourth: "invoked (RHICmdList (projr ?rd)) = [11, 12]"
    using C4_callbacks_in_declaration_order
            [where cfg = development_build and cs = ?decl
               and slots = "\<lambda>slot. None" and pool = example_pool and ?st3.0 = "projr ?rd",
             THEN conjunct2, THEN conjunct2, THEN conjunct2] rd dm noexec pd
    by simp
  show ?thesis using first second third fourth by simp
qed

text \<open>
  C4 does not hold in the immediate mode: the builder holds two passes and \<^verbatim>\<open>Execute\<close>
  records no command at all, so it invokes neither lambda.
\<close>

theorem C4_counterexample:
  "ImmediateMode immediate_build
   \<and> \<not> isl (run_calls immediate_build example_graph (example_registered immediate_build))
   \<and> map ExecuteLambda (Passes (Builder (example_declared immediate_build))) = [11, 12]
   \<and> \<not> isl (Execute immediate_build (example_declared immediate_build))
   \<and> drop (length (RHICmdList (example_declared immediate_build)))
        (RHICmdList (projr (Execute immediate_build (example_declared immediate_build)))) = []"
  by code_simp

subsection \<open>External textures: retained, and extracted unchanged\<close>

lemma initial_arena: "checked_out_in_arena (initial_state slots pool)"
  by (simp add: checked_out_in_arena_def initial_state_def)

lemma Register_binding:
  assumes "RegisterExternalTexture cfg (Some P) name st = Inr (T, st1)"
    and "checked_out_in_arena st"
  shows "external_binding st1 T P"
  using assms
  by (auto simp: RegisterExternalTexture_def macro_defs external_binding_def
                 checked_out_in_arena_iff split: if_splits)






text \<open>
  C6. In every build and mode, \<^verbatim>\<open>QueueTextureExtraction\<close> only appends its request and
  leaves every output slot as it was; so does every call other than \<^verbatim>\<open>Execute\<close>, also an
  \<^verbatim>\<open>AddPass\<close> that executes its pass at once. \<^verbatim>\<open>Execute\<close> writes the slots after the
  passes have run (\<open>sp\<close> is the state then): a slot no request names is unchanged, and
  any other holds the physical resource of the texture of the last request naming it.
\<close>

theorem C6_extraction_resolved_by_Execute:
  "(QueueTextureExtraction cfg t out b st = Inr st1 \<longrightarrow>
      OutSlots st1 = OutSlots st
      \<and> DeferredInternalTextureQueries (Builder st1) =
          DeferredInternalTextureQueries (Builder st)
          @ [\<lparr>QueryTexture = t, OutTexturePtr = out, bTransitionToRead = b\<rparr>])
   \<and> (c \<noteq> CallExecute \<and> do_call cfg c st = Inr st2 \<longrightarrow> OutSlots st2 = OutSlots st)
   \<and> (Execute cfg st = Inr st3 \<longrightarrow>
        (\<exists>sp. ExecuteDeclaredPasses cfg st = Inr sp \<and>
           (\<forall>slot. OutSlots st3 slot =
             (case last_request (DeferredInternalTextureQueries (Builder st)) slot of
                None \<Rightarrow> OutSlots st slot
              | Some q \<Rightarrow> PooledRenderTarget (Textures sp ! the (QueryTexture q))))))"
proof (intro conjI impI)
  assume "QueueTextureExtraction cfg t out b st = Inr st1"
  then show "OutSlots st1 = OutSlots st"
    by (auto simp: QueueTextureExtraction_def and_then_Inr_iff checkf_def debug_checkf_def Let_def
             split: if_splits)
next
  assume "QueueTextureExtraction cfg t out b st = Inr st1"
  then show "DeferredInternalTextureQueries (Builder st1) =
          DeferredInternalTextureQueries (Builder st)
          @ [\<lparr>QueryTexture = t, OutTexturePtr = out, bTransitionToRead = b\<rparr>]"
    by (auto simp: QueueTextureExtraction_def and_then_Inr_iff checkf_def debug_checkf_def Let_def
             split: if_splits)
next
  assume "c \<noteq> CallExecute \<and> do_call cfg c st = Inr st2"
  then show "OutSlots st2 = OutSlots st" by (auto dest: do_call_slots)
next
  assume "Execute cfg st = Inr st3"
  then show "\<exists>sp. ExecuteDeclaredPasses cfg st = Inr sp \<and>
           (\<forall>slot. OutSlots st3 slot =
             (case last_request (DeferredInternalTextureQueries (Builder st)) slot of
                None \<Rightarrow> OutSlots st slot
              | Some q \<Rightarrow> PooledRenderTarget (Textures sp ! the (QueryTexture q))))"
    by (rule Execute_all_slots)
qed

theorem C6_extraction_resolved_by_Execute_witness:
  "OutSlots (example_queued development_build) = OutSlots (example_declared development_build)
   \<and> OutSlots (projr (do_call immediate_build
         (CallAddPass ''Draw'' render_target_table PassFlags_None 11)
         (example_queued immediate_build)))
       = OutSlots (example_queued immediate_build)
   \<and> OutSlots (example_executed development_build) 5 = Some example_target
   \<and> OutSlots (example_executed development_build) 6 = None"
proof -
  let ?c = "CallAddPass ''Draw'' render_target_table PassFlags_None 11"
  note q = C6_extraction_resolved_by_Execute
             [where cfg = development_build and t = "Some 0" and out = "Some 5" and b = True
                and st = "example_declared development_build"
                and ?st1.0 = "example_queued development_build", THEN conjunct1]
  have "\<not> isl (do_call immediate_build ?c (example_queued immediate_build))" by code_simp
  then have d: "?c \<noteq> CallExecute \<and> do_call immediate_build ?c (example_queued immediate_build)
                  = Inr (projr (do_call immediate_build ?c (example_queued immediate_build)))"
    using Inr_projr by auto
  note c = C6_extraction_resolved_by_Execute
             [where cfg = immediate_build and st = "example_queued immediate_build" and c = ?c
                and ?st2.0 = "projr (do_call immediate_build ?c (example_queued immediate_build))",
              THEN conjunct2, THEN conjunct1]
  note e = C6_extraction_resolved_by_Execute
             [where cfg = development_build and st = "example_queued development_build"
                and ?st3.0 = "example_executed development_build",
              THEN conjunct2, THEN conjunct2]
  from e executed_Inr obtain sp where
    sp: "ExecuteDeclaredPasses development_build (example_queued development_build) = Inr sp"
    and slots: "\<forall>slot. OutSlots (example_executed development_build) slot =
             (case last_request (DeferredInternalTextureQueries
                     (Builder (example_queued development_build))) slot of
                None \<Rightarrow> OutSlots (example_queued development_build) slot
              | Some q \<Rightarrow> PooledRenderTarget (Textures sp ! the (QueryTexture q)))"
    by blast
  have "\<not> isl (ExecuteDeclaredPasses development_build (example_queued development_build))"
    by code_simp
  with sp have sp': "sp = projr (ExecuteDeclaredPasses development_build
                                   (example_queued development_build))" by simp
  have five: "(case last_request (DeferredInternalTextureQueries
                     (Builder (example_queued development_build))) 5 of
                None \<Rightarrow> OutSlots (example_queued development_build) 5
              | Some q \<Rightarrow> PooledRenderTarget (Textures (projr (ExecuteDeclaredPasses
                    development_build (example_queued development_build))) ! the (QueryTexture q)))
               = Some example_target"
    by code_simp
  have six: "(case last_request (DeferredInternalTextureQueries
                     (Builder (example_queued development_build))) 6 of
                None \<Rightarrow> OutSlots (example_queued development_build) 6
              | Some q \<Rightarrow> PooledRenderTarget (Textures (projr (ExecuteDeclaredPasses
                    development_build (example_queued development_build))) ! the (QueryTexture q)))
               = None"
    by code_simp
  from q queued_Inr have "OutSlots (example_queued development_build)
                            = OutSlots (example_declared development_build)" by simp
  moreover from c d have "OutSlots (projr (do_call immediate_build ?c (example_queued immediate_build)))
       = OutSlots (example_queued immediate_build)" by simp
  moreover have "OutSlots (example_executed development_build) 5 = Some example_target"
    using slots [rule_format, of 5] unfolding sp' five .
  moreover have "OutSlots (example_executed development_build) 6 = None"
    using slots [rule_format, of 6] unfolding sp' six .
  ultimately show ?thesis by simp
qed

text \<open>
  C9. On a builder reached by calls from a new one, the texture that
  \<^verbatim>\<open>RegisterExternalTexture\<close> returns is bound to the caller's physical resource at once and
  the builder holds a reference to that resource under the texture in
  \<open>AllocatedTextures\<close>; after any further calls, \<^verbatim>\<open>Execute\<close> among them, both still hold.
\<close>

theorem C9_external_texture_retained:
  assumes "run_calls cfg cs0 (initial_state slots pool) = Inr st0"
    and "RegisterExternalTexture cfg (Some P) name st0 = Inr (T, st1)"
    and "run_calls cfg cs st1 = Inr st2"
  shows "PooledRenderTarget (Textures st1 ! T) = Some P
       \<and> AllocatedTextures (Builder st1) T = Some P
       \<and> T < length (Textures st2)
       \<and> PooledRenderTarget (Textures st2 ! T) = Some P
       \<and> AllocatedTextures (Builder st2) T = Some P"
proof -
  from run_calls_arena [OF assms(1) initial_arena] have "checked_out_in_arena st0" .
  from Register_binding [OF assms(2) this] have b1: "external_binding st1 T P" .
  from run_calls_external [OF assms(3) b1] have b2: "external_binding st2 T P" .
  from b1 b2 show ?thesis by (simp add: external_binding_def)
qed

theorem C9_external_texture_retained_witness:
  "PooledRenderTarget (Textures (example_registered development_build) ! 0) = Some example_target
   \<and> AllocatedTextures (Builder (example_registered development_build)) 0 = Some example_target
   \<and> PooledRenderTarget (Textures (example_executed development_build) ! 0) = Some example_target
   \<and> AllocatedTextures (Builder (example_executed development_build)) 0 = Some example_target"
proof -
  have start: "run_calls development_build [] (initial_state (\<lambda>slot. None) example_pool)
                 = Inr example_start"
    by (simp add: example_start_def)
  have "\<not> isl (run_calls development_build
            (example_graph @ [CallQueueTextureExtraction (Some 0) (Some 5) True, CallExecute])
            (example_registered development_build))"
    by code_simp
  moreover have "projr (run_calls development_build
            (example_graph @ [CallQueueTextureExtraction (Some 0) (Some 5) True, CallExecute])
            (example_registered development_build)) = example_executed development_build"
    by (simp add: run_calls_append declared_Inr queued_Inr executed_Inr and_then_def)
  ultimately have later: "run_calls development_build
            (example_graph @ [CallQueueTextureExtraction (Some 0) (Some 5) True, CallExecute])
            (example_registered development_build) = Inr (example_executed development_build)"
    using Inr_projr by metis
  from C9_external_texture_retained [OF start registered_Inr later] show ?thesis by simp
qed

subsection \<open>Transitions of a resource depend on its own accesses\<close>











subsection \<open>Event scopes\<close>

lemma push_scope:
  assumes "new_FStackRDGEventScopeRef cfg n st = Inr st1"
  shows "CurrentScope (Builder st1) = Some (length (EventScopeArena st))
       \<and> EventScopeArena st1 = EventScopeArena st @ [\<lparr>ScopeParent = CurrentScope (Builder st), ScopeName = n\<rparr>]"
  using assms
  by (auto simp: new_FStackRDGEventScopeRef_def and_then_Inr_iff checkf_def Let_def split: if_splits)

lemma pop_scope:
  assumes "CurrentScope (Builder st) = Some p" and "p < length (EventScopeArena st)"
  shows "\<exists>st'. delete_FStackRDGEventScopeRef cfg st = Inr st'
           \<and> CurrentScope (Builder st') = ScopeParent (EventScopeArena st ! p)"
  using assms
  by (simp add: delete_FStackRDGEventScopeRef_def and_then_def checkf_def deref_def)

lemma balanced_scope_kept:
  "balanced cs \<Longrightarrow> run_calls cfg cs st = Inr st' \<Longrightarrow>
     CurrentScope (Builder st') = CurrentScope (Builder st)"
proof (induction arbitrary: st st' rule: balanced.induct)
  case balanced_Nil
  then show ?case by simp
next
  case (balanced_call c)
  then show ?case by (auto simp: and_then_Inr_iff dest: do_call_scope(2))
next
  case (balanced_scope body n)
  from balanced_scope.prems obtain st1 st2 where
    enter: "do_call cfg (EnterEventScope n) st = Inr st1"
    and body: "run_calls cfg body st1 = Inr st2"
    and leave: "do_call cfg LeaveEventScope st2 = Inr st'"
    by (auto simp: run_calls_append and_then_Inr_iff)
  from balanced_scope.IH [OF body] have kept: "CurrentScope (Builder st2) = CurrentScope (Builder st1)" .
  show ?case
  proof (cases "RENDER_GRAPH_DRAW_EVENTS cfg = 0")
    case True
    with enter leave kept show ?thesis by simp
  next
    case False
    with enter have "new_FStackRDGEventScopeRef cfg n st = Inr st1" by simp
    from push_scope [OF this] have
      cur: "CurrentScope (Builder st1) = Some (length (EventScopeArena st))"
      and arena: "EventScopeArena st1 = EventScopeArena st @ [\<lparr>ScopeParent = CurrentScope (Builder st), ScopeName = n\<rparr>]"
      by simp_all
    from run_calls_arena_prefix [OF body] arena obtain xs where
      arena2: "EventScopeArena st2 = EventScopeArena st @ [\<lparr>ScopeParent = CurrentScope (Builder st), ScopeName = n\<rparr>] @ xs"
      by auto
    have "\<exists>st''. delete_FStackRDGEventScopeRef cfg st2 = Inr st''
           \<and> CurrentScope (Builder st'') = ScopeParent (EventScopeArena st2 ! length (EventScopeArena st))"
      by (rule pop_scope) (simp_all add: kept cur arena2)
    with leave False arena2 show ?thesis by (auto simp: nth_append)
  qed
next
  case (balanced_append cs ds)
  from balanced_append.prems obtain st1 where
    a: "run_calls cfg cs st = Inr st1" and b: "run_calls cfg ds st1 = Inr st'"
    by (auto simp: run_calls_append and_then_Inr_iff)
  from balanced_append.IH(1) [OF a] balanced_append.IH(2) [OF b] show ?case by simp
qed

text \<open>
  C8. Constructing an \<^verbatim>\<open>FStackRDGEventScopeRef\<close> makes a new scope the current one, and the
  parent of the new scope is the scope that was current before; destroying it at once
  restores that scope. After any run of calls in which the scopes entered are left again
  in nested fashion (as the destructors of block-scoped objects run), the current scope
  is what it was before the run.
\<close>

theorem C8_event_scopes:
  "(new_FStackRDGEventScopeRef cfg n st = Inr st1 \<longrightarrow>
      CurrentScope (Builder st1) = Some (length (EventScopeArena st))
      \<and> length (EventScopeArena st) < length (EventScopeArena st1)
      \<and> ScopeParent (EventScopeArena st1 ! length (EventScopeArena st)) = CurrentScope (Builder st)
      \<and> (\<exists>st2. delete_FStackRDGEventScopeRef cfg st1 = Inr st2
                \<and> CurrentScope (Builder st2) = CurrentScope (Builder st)))
   \<and> (balanced cs \<and> run_calls cfg cs st = Inr st' \<longrightarrow>
        CurrentScope (Builder st') = CurrentScope (Builder st))"
proof (intro conjI impI)
  assume push: "new_FStackRDGEventScopeRef cfg n st = Inr st1"
  note p = push_scope [OF push]
  from p show "CurrentScope (Builder st1) = Some (length (EventScopeArena st))" by simp
  from p show "length (EventScopeArena st) < length (EventScopeArena st1)" by simp
  from p show "ScopeParent (EventScopeArena st1 ! length (EventScopeArena st)) = CurrentScope (Builder st)"
    by simp
  from p pop_scope [of st1 "length (EventScopeArena st)" cfg]
  show "\<exists>st2. delete_FStackRDGEventScopeRef cfg st1 = Inr st2
                \<and> CurrentScope (Builder st2) = CurrentScope (Builder st)"
    by simp
next
  assume "balanced cs \<and> run_calls cfg cs st = Inr st'"
  then show "CurrentScope (Builder st') = CurrentScope (Builder st)"
    by (auto dest: balanced_scope_kept)
qed

theorem C8_event_scopes_witness:
  "CurrentScope (Builder (projr (new_FStackRDGEventScopeRef development_build ''Frame''
       example_start))) = Some 0
   \<and> ScopeParent (EventScopeArena (projr (new_FStackRDGEventScopeRef development_build ''Frame''
       example_start)) ! 0) = None
   \<and> balanced scoped_program
   \<and> CurrentScope (Builder (projr (run_calls development_build scoped_program example_start)))
       = CurrentScope (Builder example_start)"
proof -
  let ?p = "new_FStackRDGEventScopeRef development_build ''Frame'' example_start"
  have "\<not> isl ?p" by code_simp
  then have p: "?p = Inr (projr ?p)" by (rule Inr_projr)
  have len: "length (EventScopeArena example_start) = 0" by code_simp
  have cur: "CurrentScope (Builder example_start) = None" by code_simp
  have inner: "balanced (EnterEventScope ''Shadows'' # [] @ [LeaveEventScope])"
    by (intro balanced.intros)
  have "balanced ([CallCreateTexture example_desc ''A'']
                  @ [EnterEventScope ''Shadows'', LeaveEventScope])"
    using inner by (intro balanced_append balanced_call) simp_all
  then have "balanced (EnterEventScope ''Frame''
               # ([CallCreateTexture example_desc ''A'', EnterEventScope ''Shadows'', LeaveEventScope])
               @ [LeaveEventScope])"
    by (intro balanced_scope) simp
  then have bal: "balanced scoped_program" by (simp add: scoped_program_def)
  let ?r = "run_calls development_build scoped_program example_start"
  have "\<not> isl ?r" by code_simp
  then have r: "?r = Inr (projr ?r)" by (rule Inr_projr)
  note t = C8_event_scopes [where cfg = development_build and n = "''Frame''"
                              and st = example_start and ?st1.0 = "projr ?p"
                              and cs = scoped_program and st' = "projr ?r"]
  from t [THEN conjunct1] p len cur
  have "CurrentScope (Builder (projr ?p)) = Some 0
        \<and> ScopeParent (EventScopeArena (projr ?p) ! 0) = None" by simp
  moreover from t [THEN conjunct2] bal r
  have "CurrentScope (Builder (projr ?r)) = CurrentScope (Builder example_start)" by simp
  ultimately show ?thesis using bal by simp
qed

end
